theory Spec2Isabelle
  imports Main
begin

section \<open>JavaScript strings and values\<close>

text \<open>
  The backend is \<^verbatim>\<open>src/backend/server.js\<close>. A JavaScript string is modelled as a
  \<^typ>\<open>string\<close> whose characters are the code units below 256. The built-in string
  methods the handlers call are written out on that range.
\<close>

definition isDigit :: "char \<Rightarrow> bool" where
  \<comment> \<open>the complement of the regular expression class \<^verbatim>\<open>\D\<close>\<close>
  "isDigit c = (c \<in> set ''0123456789'')"

definition isSpace :: "char \<Rightarrow> bool" where
  \<comment> \<open>white space and line terminators removed by \<^verbatim>\<open>String.prototype.trim\<close>\<close>
  "isSpace c = (c \<in> set [CHR 0x09, CHR 0x0A, CHR 0x0B, CHR 0x0C, CHR 0x0D, CHR 0x20, CHR 0xA0])"

definition trim :: "string \<Rightarrow> string" where
  "trim s = rev (dropWhile isSpace (rev (dropWhile isSpace s)))"

definition upperChars :: string where
  "upperChars = ''ABCDEFGHIJKLMNOPQRSTUVWXYZ'' @
     [CHR 0xC0, CHR 0xC1, CHR 0xC2, CHR 0xC3, CHR 0xC4, CHR 0xC5, CHR 0xC6, CHR 0xC7,
      CHR 0xC8, CHR 0xC9, CHR 0xCA, CHR 0xCB, CHR 0xCC, CHR 0xCD, CHR 0xCE, CHR 0xCF,
      CHR 0xD0, CHR 0xD1, CHR 0xD2, CHR 0xD3, CHR 0xD4, CHR 0xD5, CHR 0xD6,
      CHR 0xD8, CHR 0xD9, CHR 0xDA, CHR 0xDB, CHR 0xDC, CHR 0xDD, CHR 0xDE]"

definition lowerChars :: string where
  "lowerChars = ''abcdefghijklmnopqrstuvwxyz'' @
     [CHR 0xE0, CHR 0xE1, CHR 0xE2, CHR 0xE3, CHR 0xE4, CHR 0xE5, CHR 0xE6, CHR 0xE7,
      CHR 0xE8, CHR 0xE9, CHR 0xEA, CHR 0xEB, CHR 0xEC, CHR 0xED, CHR 0xEE, CHR 0xEF,
      CHR 0xF0, CHR 0xF1, CHR 0xF2, CHR 0xF3, CHR 0xF4, CHR 0xF5, CHR 0xF6,
      CHR 0xF8, CHR 0xF9, CHR 0xFA, CHR 0xFB, CHR 0xFC, CHR 0xFD, CHR 0xFE]"

definition lowerChar :: "char \<Rightarrow> char" where
  "lowerChar c = (case map_of (zip upperChars lowerChars) c of Some l \<Rightarrow> l | None \<Rightarrow> c)"

definition toLowerCase :: "string \<Rightarrow> string" where
  "toLowerCase s = map lowerChar s"

definition padStart :: "nat \<Rightarrow> char \<Rightarrow> string \<Rightarrow> string" where
  "padStart n c s = replicate (n - length s) c @ s"

definition digitChar :: "nat \<Rightarrow> char" where
  "digitChar d = ''0123456789'' ! d"

fun showNat :: "nat \<Rightarrow> string" where
  "showNat n = (if n < 10 then [digitChar n] else showNat (n div 10) @ [digitChar (n mod 10)])"

declare showNat.simps [simp del]

definition showInt :: "int \<Rightarrow> string" where
  "showInt i = (if i < 0 then CHR ''-'' # showNat (nat (- i)) else showNat (nat i))"

text \<open>
  A value of a parsed JSON request body. \<open>undefined\<close> (an absent key) is \<open>None\<close> of
  \<^typ>\<open>'a option\<close>. \<open>JNum n\<close> stands for a number that is a safe integer
  (\<open>\<bar>n\<bar> < 2 ^ 53\<close>): these are the numbers that \<^verbatim>\<open>String\<close> prints digit for digit
  in plain decimal notation, and other numbers (fractions, larger magnitudes) are not
  values of the model. An array or object is carried by the text \<^verbatim>\<open>String(v)\<close> gives
  for it, which is all the handlers read of such a value; an object that redefines
  \<^verbatim>\<open>toString\<close> is not a value of the model.
\<close>

datatype jsval = JNull | JBool bool | JNum int | JStr string | JObj string

type_synonym jsopt = "jsval option"

fun truthy :: "jsopt \<Rightarrow> bool" where
  "truthy None = False"
| "truthy (Some JNull) = False"
| "truthy (Some (JBool b)) = b"
| "truthy (Some (JNum n)) = (n \<noteq> 0)"
| "truthy (Some (JStr s)) = (s \<noteq> [])"
| "truthy (Some (JObj r)) = True"

fun jsString :: "jsval \<Rightarrow> string" where
  \<comment> \<open>\<^verbatim>\<open>String(v)\<close>, and \<^verbatim>\<open>v.toString()\<close> where \<open>v\<close> is not null\<close>
  "jsString JNull = ''null''"
| "jsString (JBool b) = (if b then ''true'' else ''false'')"
| "jsString (JNum n) = showInt n"
| "jsString (JStr s) = s"
| "jsString (JObj r) = r"

fun nullish :: "jsopt \<Rightarrow> jsval \<Rightarrow> jsval" where
  \<comment> \<open>\<^verbatim>\<open>v ?? d\<close>\<close>
  "nullish None d = d"
| "nullish (Some JNull) d = d"
| "nullish (Some v) d = v"

definition orElse :: "jsopt \<Rightarrow> jsval \<Rightarrow> jsval" where
  \<comment> \<open>\<^verbatim>\<open>v || d\<close>\<close>
  "orElse v d = (if truthy v then the v else d)"

fun trimMethod :: "jsopt \<Rightarrow> string option" where
  \<comment> \<open>\<^verbatim>\<open>v.trim()\<close>: only a string has the method, \<open>None\<close> is the TypeError\<close>
  "trimMethod (Some (JStr s)) = Some (trim s)"
| "trimMethod _ = None"

section \<open>Normalisation\<close>

definition normalizeMobileNumber :: "jsopt \<Rightarrow> string" where
  "normalizeMobileNumber mobileNo =
     (if \<not> truthy mobileNo then [] else filter isDigit (jsString (the mobileNo)))"

fun normalizeYesNo :: "jsopt \<Rightarrow> string" where
  "normalizeYesNo (Some (JBool b)) = (if b then ''Yes'' else ''No'')"
| "normalizeYesNo (Some (JStr s)) = (if toLowerCase (trim s) = ''yes'' then ''Yes'' else ''No'')"
| "normalizeYesNo _ = ''No''"

section \<open>Timestamps\<close>

text \<open>
  The clock is an input of the model. A \<open>jsdate\<close> is the \<^verbatim>\<open>Date\<close> object
  \<^verbatim>\<open>istTime\<close> of \<^verbatim>\<open>getCurrentISTTimestamp\<close> (the current instant shifted by
  5 h 30 min), read through its UTC getters. \<^verbatim>\<open>Date.now()\<close> is an \<^typ>\<open>int\<close> of
  milliseconds, and the parser behind \<^verbatim>\<open>new Date(value)\<close> is a parameter
  \<open>dateParse\<close> that gives the milliseconds of a text, or \<open>None\<close> for an invalid date.
\<close>

record jsdate =
  getUTCFullYear :: int
  getUTCMonth :: nat
  getUTCDate :: nat
  getUTCHours :: nat
  getUTCMinutes :: nat
  getUTCSeconds :: nat
  getUTCMilliseconds :: nat

definition getCurrentISTTimestamp :: "jsdate \<Rightarrow> string" where
  "getCurrentISTTimestamp istTime =
     (let year = getUTCFullYear istTime;
          month = padStart 2 CHR ''0'' (showNat (getUTCMonth istTime + 1));
          day = padStart 2 CHR ''0'' (showNat (getUTCDate istTime));
          hours = padStart 2 CHR ''0'' (showNat (getUTCHours istTime));
          minutes = padStart 2 CHR ''0'' (showNat (getUTCMinutes istTime));
          seconds = padStart 2 CHR ''0'' (showNat (getUTCSeconds istTime));
          milliseconds = padStart 3 CHR ''0'' (showNat (getUTCMilliseconds istTime))
      in showInt year @ ''-'' @ month @ ''-'' @ day @ ''T'' @ hours @ '':'' @ minutes @ '':''
           @ seconds @ ''.'' @ milliseconds @ ''+05:30'')"

definition parseIsoDate :: "(string \<Rightarrow> int option) \<Rightarrow> jsopt \<Rightarrow> int option" where
  "parseIsoDate dateParse v =
     (case v of
        Some (JStr s) \<Rightarrow> (if s = [] then None else dateParse s)
      | _ \<Rightarrow> None)"

definition TWELVE_HOURS_MS :: int where
  "TWELVE_HOURS_MS = 12 * 60 * 60 * 1000"

definition ceilDiv :: "int \<Rightarrow> int \<Rightarrow> int" where
  \<comment> \<open>\<^verbatim>\<open>Math.ceil(a / b)\<close> for integers \<open>a\<close> and \<open>b > 0\<close>\<close>
  "ceilDiv a b = - ((- a) div b)"

section \<open>Rows and student objects\<close>

text \<open>
  The sheet is the list of rows that \<^verbatim>\<open>spreadsheets.values.get\<close> returns for
  \<^verbatim>\<open>SHEET_RANGE\<close>, each a list of cell texts of any length. With the default range
  \<^verbatim>\<open>student_exam_data!A2:L\<close> the first of them is sheet row 2 and no header row is
  skipped (\<open>startRow\<close> is 0). A student object is a map from property names to values.
\<close>

type_synonym row = "string list"
type_synonym student = "string \<rightharpoonup> jsval"

definition HEADERS :: "string list" where
  "HEADERS = [''Name'', ''MobileNo'', ''District'', ''State'', ''Paid'', ''FeeAmount'',
     ''Attempted'', ''RetakeAllowed'', ''LastApprovedAt'', [], [], ''CreatedAt'']"

definition startRow :: nat where
  "startRow = 0"

definition cell :: "row \<Rightarrow> nat \<Rightarrow> string" where
  \<comment> \<open>\<^verbatim>\<open>row[index] ?? ''\<close>\<close>
  "cell r index = (if index < length r then r ! index else [])"

definition mapRowToStudent :: "row \<Rightarrow> nat \<Rightarrow> student" where
  "mapRowToStudent r rowNumber =
     (fold (\<lambda>(index, header) acc.
          if header \<noteq> [] \<and> trim header \<noteq> [] then acc(header \<mapsto> JStr (cell r index))
          else if index = 9 then acc(''_columnJ'' \<mapsto> JStr (cell r index))
          else if index = 10 then acc(''_columnK'' \<mapsto> JStr (cell r index))
          else acc)
        (enumerate 0 HEADERS) Map.empty)
     (''rowNumber'' \<mapsto> JNum (int rowNumber))"

definition rowNumberOf :: "student \<Rightarrow> nat" where
  \<comment> \<open>\<^verbatim>\<open>student.rowNumber\<close> of an object made by \<open>mapRowToStudent\<close>\<close>
  "rowNumberOf s = (case s ''rowNumber'' of Some (JNum n) \<Rightarrow> nat n | _ \<Rightarrow> 0)"

datatype failure = RowWidth | TypeError | RecordExists

definition namedCell :: "jsopt \<Rightarrow> jsval" where
  \<comment> \<open>a named column: \<^verbatim>\<open>''\<close> for undefined or null, else \<^verbatim>\<open>String(value).trim()\<close>\<close>
  "namedCell v =
     (case v of
        None \<Rightarrow> JStr []
      | Some JNull \<Rightarrow> JStr []
      | Some x \<Rightarrow> JStr (trim (jsString x)))"

definition buildRowFromStudent :: "student \<Rightarrow> failure + jsval list" where
  "buildRowFromStudent s =
     (let r = map (\<lambda>(index, header).
                if header = [] \<or> trim header = [] then
                  (if index = 9 then nullish (s ''_columnJ'') (JStr [])
                   else if index = 10 then nullish (s ''_columnK'') (JStr [])
                   else JStr [])
                else namedCell (s header))
              (enumerate 0 HEADERS)
      in if length r \<noteq> length HEADERS then Inl RowWidth else Inr r)"

fun findIndex :: "('a \<Rightarrow> bool) \<Rightarrow> 'a list \<Rightarrow> nat option" where
  "findIndex P [] = None"
| "findIndex P (x # xs) =
     (if P x then Some 0 else map_option Suc (findIndex P xs))"

definition rowMatches :: "string \<Rightarrow> row \<Rightarrow> bool" where
  \<comment> \<open>the callback of \<^verbatim>\<open>dataRows.findIndex\<close>\<close>
  "rowMatches searchMobile r =
     (if length r < 2 then False
      else (let rowMobile = normalizeMobileNumber (Some (JStr (cell r 1)))
            in if rowMobile = [] then False else rowMobile = searchMobile))"

definition storedNumber :: "row \<Rightarrow> string" where
  \<comment> \<open>\<^verbatim>\<open>normalizeMobileNumber(row[1] ?? '')\<close>: the number a row of the sheet holds\<close>
  "storedNumber r = normalizeMobileNumber (Some (JStr (cell r 1)))"

definition findStudentByMobile :: "row list \<Rightarrow> string \<Rightarrow> student option" where
  "findStudentByMobile rows mobileNo =
     (if rows = [] then None
      else (let searchMobile = normalizeMobileNumber (Some (JStr mobileNo));
                dataRows = (if startRow = 1 then drop 1 rows else rows)
            in case findIndex (rowMatches searchMobile) dataRows of
                 None \<Rightarrow> None
               | Some index \<Rightarrow> Some (mapRowToStudent (dataRows ! index) (index + 2))))"

section \<open>The sheet as a store\<close>

text \<open>
  A handler ends with at most one write. \<open>UpdateRow n vs\<close> is
  \<^verbatim>\<open>spreadsheets.values.update\<close> on the range \<^verbatim>\<open>A{n}:L{n}\<close> and \<open>AppendRow vs\<close> is
  \<^verbatim>\<open>spreadsheets.values.append\<close>. The spreadsheet service is not part of the source:
  the store modelled here keeps the text of every value written as it is (the service,
  called with \<^verbatim>\<open>USER_ENTERED\<close>, may parse a text again as a user's input), puts an
  appended row after the last row, and its calls succeed.
\<close>

datatype writeOp = NoWrite | UpdateRow nat "jsval list" | AppendRow "jsval list"

fun applyWrite :: "writeOp \<Rightarrow> row list \<Rightarrow> row list" where
  "applyWrite NoWrite rows = rows"
| "applyWrite (AppendRow vs) rows = rows @ [map jsString vs]"
| "applyWrite (UpdateRow n vs) rows =
     (if n < 2 then rows
      else (let i = n - 2;
                padded = rows @ replicate (Suc i - length rows) []
            in padded[i := map jsString vs]))"

section \<open>Responses\<close>

datatype payload =
    StudentBody student
  | StudentUpdated student
  | StudentCreated student
  | NotFoundBody
  | CooldownBody int
  | ErrorBody string

datatype response = Response (status: nat) (body: payload)

section \<open>GET /student\<close>

definition get_student :: "row list \<Rightarrow> string option \<Rightarrow> response" where
  "get_student rows mobileNo =
     (case mobileNo of
        None \<Rightarrow> Response 400 (ErrorBody ''mobileNo query parameter is required.'')
      | Some m \<Rightarrow>
          if m = [] \<or> trim m = []
          then Response 400 (ErrorBody ''mobileNo query parameter is required.'')
          else (case findStudentByMobile rows (trim m) of
                  None \<Rightarrow> Response 404 NotFoundBody
                | Some s \<Rightarrow> Response 200 (StudentBody s)))"

section \<open>POST /student\<close>

record studentRequest =
  Name :: jsopt
  MobileNo :: jsopt
  District :: jsopt
  State :: jsopt
  Paid :: jsopt
  FeeAmount :: jsopt

definition feeProvided :: "jsopt \<Rightarrow> bool" where
  \<comment> \<open>\<^verbatim>\<open>FeeAmount !== undefined && FeeAmount !== null && FeeAmount !== ''\<close>\<close>
  "feeProvided v = (v \<noteq> None \<and> v \<noteq> Some JNull \<and> v \<noteq> Some (JStr []))"

text \<open>
  The block that rewrites an existing row. The source repeats it word for word for
  \<^verbatim>\<open>existingStudent\<close>, \<^verbatim>\<open>finalCheck\<close> and \<^verbatim>\<open>preAppendCheck\<close>. \<open>Inl\<close> is an
  exception thrown to the handler's \<^verbatim>\<open>catch\<close>.
\<close>

definition updateExisting ::
  "studentRequest \<Rightarrow> string \<Rightarrow> string \<Rightarrow> student \<Rightarrow> failure + (response \<times> writeOp)" where
  "updateExisting req normalizedMobileNo normalizedPaid existing =
     (case (trimMethod (Name req), trimMethod (District req), trimMethod (State req)) of
        (Some name, Some district, Some state) \<Rightarrow>
          (let updatedStudent = existing
                 (''Name'' \<mapsto> JStr name,
                  ''MobileNo'' \<mapsto> JStr normalizedMobileNo,
                  ''District'' \<mapsto> JStr district,
                  ''State'' \<mapsto> JStr state,
                  ''Paid'' \<mapsto> JStr normalizedPaid,
                  ''FeeAmount'' \<mapsto>
                     (if feeProvided (FeeAmount req)
                      then JStr (trim (jsString (the (FeeAmount req))))
                      else nullish (existing ''FeeAmount'') (JStr [])),
                  ''CreatedAt'' \<mapsto> nullish (existing ''CreatedAt'') (JStr []),
                  ''LastApprovedAt'' \<mapsto> orElse (existing ''LastApprovedAt'') (JStr []),
                  ''_columnJ'' \<mapsto> nullish (existing ''_columnJ'') (JStr []),
                  ''_columnK'' \<mapsto> nullish (existing ''_columnK'') (JStr []));
               sheetRow = rowNumberOf existing
           in case buildRowFromStudent updatedStudent of
                Inl e \<Rightarrow> Inl e
              | Inr updateValues \<Rightarrow>
                  if length updateValues \<noteq> 12 then Inl RowWidth
                  else Inr (Response 200 (StudentUpdated updatedStudent),
                            UpdateRow sheetRow updateValues))
      | _ \<Rightarrow> Inl TypeError)"

text \<open>
  The body of the \<^verbatim>\<open>try\<close>. The four lookups each read the sheet again: \<open>rows1\<close> to
  \<open>rows4\<close> are what the four reads return, and \<open>t1\<close>, \<open>t2\<close> are the clock at the two
  calls of \<^verbatim>\<open>getCurrentISTTimestamp\<close>.
\<close>

definition post_student_try ::
  "jsdate \<Rightarrow> jsdate \<Rightarrow> row list \<Rightarrow> row list \<Rightarrow> row list \<Rightarrow> row list \<Rightarrow> studentRequest
     \<Rightarrow> failure + (response \<times> writeOp)" where
  "post_student_try t1 t2 rows1 rows2 rows3 rows4 req =
     (let normalizedMobileNo = normalizeMobileNumber (MobileNo req)
      in if normalizedMobileNo = []
         then Inr (Response 400 (ErrorBody ''Invalid mobile number.''), NoWrite)
         else
          (let existingStudent = findStudentByMobile rows1 normalizedMobileNo;
               normalizedPaid = normalizeYesNo (Paid req)
           in case existingStudent of
                Some existing \<Rightarrow> updateExisting req normalizedMobileNo normalizedPaid existing
              | None \<Rightarrow>
                 (case findStudentByMobile rows2 normalizedMobileNo of
                    Some finalCheck \<Rightarrow>
                      updateExisting req normalizedMobileNo normalizedPaid finalCheck
                  | None \<Rightarrow>
                     (case (trimMethod (Name req), trimMethod (District req),
                            trimMethod (State req)) of
                        (Some name, Some district, Some state) \<Rightarrow>
                          (let newStudent =
                                 [''Name'' \<mapsto> JStr name,
                                  ''MobileNo'' \<mapsto> JStr normalizedMobileNo,
                                  ''District'' \<mapsto> JStr district,
                                  ''State'' \<mapsto> JStr state,
                                  ''Paid'' \<mapsto> JStr normalizedPaid,
                                  ''FeeAmount'' \<mapsto> JStr (trim (jsString (the (FeeAmount req)))),
                                  ''Attempted'' \<mapsto> JStr ''Yes'',
                                  ''RetakeAllowed'' \<mapsto> JStr ''No'',
                                  ''LastApprovedAt'' \<mapsto> JStr (getCurrentISTTimestamp t1),
                                  ''_columnJ'' \<mapsto> JStr [],
                                  ''_columnK'' \<mapsto> JStr [],
                                  ''CreatedAt'' \<mapsto> JStr (getCurrentISTTimestamp t2)]
                           in case findStudentByMobile rows3 normalizedMobileNo of
                                Some preAppendCheck \<Rightarrow>
                                  updateExisting req normalizedMobileNo normalizedPaid
                                    preAppendCheck
                              | None \<Rightarrow>
                                 (case findStudentByMobile rows4 normalizedMobileNo of
                                    Some absoluteFinalCheck \<Rightarrow> Inl RecordExists
                                  | None \<Rightarrow>
                                     (case buildRowFromStudent newStudent of
                                        Inl e \<Rightarrow> Inl e
                                      | Inr newStudentRow \<Rightarrow>
                                          if length newStudentRow \<noteq> 12 then Inl RowWidth
                                          else Inr (Response 201 (StudentCreated newStudent),
                                                    AppendRow newStudentRow))))
                      | _ \<Rightarrow> Inl TypeError))))"

definition post_student ::
  "jsdate \<Rightarrow> jsdate \<Rightarrow> row list \<Rightarrow> row list \<Rightarrow> row list \<Rightarrow> row list \<Rightarrow> studentRequest
     \<Rightarrow> response \<times> writeOp" where
  "post_student t1 t2 rows1 rows2 rows3 rows4 req =
     (if \<not> truthy (Name req) \<or> \<not> truthy (MobileNo req) \<or> \<not> truthy (District req)
         \<or> \<not> truthy (State req) \<or> Paid req = None
      then (Response 400 (ErrorBody ''Name, MobileNo, District, State, and Paid are required.''),
            NoWrite)
      else if \<not> feeProvided (FeeAmount req)
      then (Response 400 (ErrorBody ''FeeAmount is required.''), NoWrite)
      else (case post_student_try t1 t2 rows1 rows2 rows3 rows4 req of
              Inl e \<Rightarrow> (Response 500 (ErrorBody ''Failed to add student''), NoWrite)
            | Inr r \<Rightarrow> r))"

text \<open>
  The handler answers 400 to a request that fails one of its three checks (lines 657 to
  680): a missing \<^verbatim>\<open>Name\<close>, \<^verbatim>\<open>MobileNo\<close>, \<^verbatim>\<open>District\<close>, \<^verbatim>\<open>State\<close> or
  \<^verbatim>\<open>Paid\<close>, a missing \<^verbatim>\<open>FeeAmount\<close>, a \<^verbatim>\<open>MobileNo\<close> without digits.
  \<open>passesChecks\<close> says that a request passes all three. The checks do not look at the
  type of a field: \<open>stringFields\<close> says that \<^verbatim>\<open>Name\<close>, \<^verbatim>\<open>District\<close> and \<^verbatim>\<open>State\<close>
  are strings, the only values on which the handler's calls of \<^verbatim>\<open>.trim()\<close> do not
  throw.
\<close>

definition passesChecks :: "studentRequest \<Rightarrow> bool" where
  "passesChecks req =
     (truthy (Name req) \<and> truthy (MobileNo req) \<and> truthy (District req)
      \<and> truthy (State req) \<and> Paid req \<noteq> None \<and> feeProvided (FeeAmount req)
      \<and> normalizeMobileNumber (MobileNo req) \<noteq> [])"

definition stringFields :: "studentRequest \<Rightarrow> bool" where
  "stringFields req =
     (trimMethod (Name req) \<noteq> None \<and> trimMethod (District req) \<noteq> None
      \<and> trimMethod (State req) \<noteq> None)"

text \<open>Sequential access: nothing else writes between the reads and the write.\<close>

definition post_student_seq ::
  "jsdate \<Rightarrow> jsdate \<Rightarrow> row list \<Rightarrow> studentRequest \<Rightarrow> response \<times> row list" where
  "post_student_seq t1 t2 rows req =
     (let (res, w) = post_student t1 t2 rows rows rows rows req in (res, applyWrite w rows))"

section \<open>POST /student/update\<close>

definition normalizeField :: "string \<Rightarrow> student \<Rightarrow> student" where
  \<comment> \<open>\<^verbatim>\<open>if (typeof u[k] !== 'undefined') u[k] = normalizeYesNo(u[k])\<close>\<close>
  "normalizeField k u = (if u k \<noteq> None then u(k \<mapsto> JStr (normalizeYesNo (u k))) else u)"

definition retakeRejection ::
  "(string \<Rightarrow> int option) \<Rightarrow> int \<Rightarrow> bool \<Rightarrow> student \<Rightarrow> int option" where
  \<comment> \<open>the cooldown check: \<open>Some remainingHours\<close> when the request is refused\<close>
  "retakeRejection dateParse now isRetakeRequest s =
     (if isRetakeRequest then
        (case parseIsoDate dateParse (s ''LastApprovedAt'') of
           Some lastApprovedAtDate \<Rightarrow>
             (let timeSinceLastApproval = now - lastApprovedAtDate
              in if timeSinceLastApproval < TWELVE_HOURS_MS
                 then (let remainingMs = TWELVE_HOURS_MS - timeSinceLastApproval
                       in Some (ceilDiv remainingMs (60 * 60 * 1000)))
                 else None)
         | None \<Rightarrow> None)
      else None)"

text \<open>
  Lines 1017 to 1059 of the handler build the object written back, from the record \<open>s\<close>
  found and the normalised updates. Each statement that mutates \<^verbatim>\<open>updatedStudent\<close> is
  a function from the object before it to the object after it.
\<close>

definition restoreColumn :: "string \<Rightarrow> student \<Rightarrow> student \<Rightarrow> student" where
  \<comment> \<open>\<^verbatim>\<open>if (!u[k]) u[k] = s[k] ?? ''\<close>, for \<^verbatim>\<open>_columnJ\<close> and \<^verbatim>\<open>_columnK\<close>\<close>
  "restoreColumn k s u = (if \<not> truthy (u k) then u(k \<mapsto> nullish (s k) (JStr [])) else u)"

definition preserveFeeAmount :: "student \<Rightarrow> student \<Rightarrow> student" where
  "preserveFeeAmount s u =
     (if u ''FeeAmount'' = None \<or> u ''FeeAmount'' = Some JNull
      then u(''FeeAmount'' \<mapsto> nullish (s ''FeeAmount'') (JStr []))
      else u)"

definition stampLastApprovedAt :: "bool \<Rightarrow> jsdate \<Rightarrow> student \<Rightarrow> student \<Rightarrow> student" where
  "stampLastApprovedAt refresh istTime s u =
     (if refresh then u(''LastApprovedAt'' \<mapsto> JStr (getCurrentISTTimestamp istTime))
      else if u ''LastApprovedAt'' = None
      then u(''LastApprovedAt'' \<mapsto> nullish (s ''LastApprovedAt'') (JStr []))
      else u)"

definition keepCreatedAt :: "student \<Rightarrow> student \<Rightarrow> student" where
  "keepCreatedAt s u =
     (let u' = u(''CreatedAt'' \<mapsto> nullish (s ''CreatedAt'') (JStr []))
      in if u' ''CreatedAt'' \<noteq> Some (nullish (s ''CreatedAt'') (JStr []))
         then u'(''CreatedAt'' \<mapsto> nullish (s ''CreatedAt'') (JStr []))
         else u')"

definition mergeUpdates :: "student \<Rightarrow> student \<Rightarrow> string \<Rightarrow> bool \<Rightarrow> jsdate \<Rightarrow> student" where
  "mergeUpdates s normalizedUpdates normalizedMobileNo refresh istTime =
     (let updatesWithoutCreatedAt = normalizedUpdates(''CreatedAt'' := None);
          updatedStudent =
            (s ++ updatesWithoutCreatedAt)(''MobileNo'' \<mapsto> JStr normalizedMobileNo)
      in keepCreatedAt s
           (stampLastApprovedAt refresh istTime s
              (preserveFeeAmount s
                 (restoreColumn ''_columnK'' s (restoreColumn ''_columnJ'' s updatedStudent)))))"

text \<open>
  \<open>updates\<close> is the own enumerable properties of \<^verbatim>\<open>req.body.updates\<close>, \<open>None\<close> when
  that value is falsy. \<open>now\<close> is \<^verbatim>\<open>Date.now()\<close> at the cooldown check and \<open>istTime\<close>
  the clock at the later call of \<^verbatim>\<open>getCurrentISTTimestamp\<close>.
\<close>

definition post_student_update_try ::
  "(string \<Rightarrow> int option) \<Rightarrow> int \<Rightarrow> jsdate \<Rightarrow> row list \<Rightarrow> jsopt \<Rightarrow> student
     \<Rightarrow> failure + (response \<times> writeOp)" where
  "post_student_update_try dateParse now istTime rows mobileNo updates =
     (let normalizedMobileNo = normalizeMobileNumber mobileNo
      in if normalizedMobileNo = []
         then Inr (Response 400 (ErrorBody ''Invalid mobile number.''), NoWrite)
         else
          (case findStudentByMobile rows normalizedMobileNo of
             None \<Rightarrow> Inr (Response 404 NotFoundBody, NoWrite)
           | Some s \<Rightarrow>
              (let normalizedUpdates =
                     normalizeField ''RetakeAllowed''
                       (normalizeField ''Attempted'' (normalizeField ''Paid'' updates));
                   isRetakeRequest =
                     (normalizedUpdates ''RetakeAllowed'' \<noteq> None
                      \<and> normalizedUpdates ''RetakeAllowed'' = Some (JStr ''Yes''));
                   isAttemptApproval =
                     (normalizedUpdates ''Attempted'' \<noteq> None
                      \<and> normalizedUpdates ''Attempted'' = Some (JStr ''Yes'')
                      \<and> normalizeYesNo (s ''Attempted'') \<noteq> ''Yes'')
               in case retakeRejection dateParse now isRetakeRequest s of
                    Some remainingHours \<Rightarrow>
                      Inr (Response 409 (CooldownBody remainingHours), NoWrite)
                  | None \<Rightarrow>
                     (let updatedStudent =
                            mergeUpdates s normalizedUpdates normalizedMobileNo
                              (isRetakeRequest \<or> isAttemptApproval) istTime;
                          sheetRow = rowNumberOf s
                      in case buildRowFromStudent updatedStudent of
                           Inl e \<Rightarrow> Inl e
                         | Inr updateValues \<Rightarrow>
                             if length updateValues \<noteq> 12 then Inl RowWidth
                             else Inr (Response 200 (StudentBody updatedStudent),
                                       UpdateRow sheetRow updateValues)))))"

definition post_student_update ::
  "(string \<Rightarrow> int option) \<Rightarrow> int \<Rightarrow> jsdate \<Rightarrow> row list \<Rightarrow> jsopt \<Rightarrow> student option
     \<Rightarrow> response \<times> writeOp" where
  "post_student_update dateParse now istTime rows mobileNo updates =
     (if \<not> truthy mobileNo \<or> updates = None
      then (Response 400 (ErrorBody ''mobileNo and updates are required in the request body.''),
            NoWrite)
      else (case post_student_update_try dateParse now istTime rows mobileNo (the updates) of
              Inl e \<Rightarrow> (Response 500 (ErrorBody ''Failed to update student''), NoWrite)
            | Inr r \<Rightarrow> r))"

definition post_student_update_seq ::
  "(string \<Rightarrow> int option) \<Rightarrow> int \<Rightarrow> jsdate \<Rightarrow> row list \<Rightarrow> jsopt \<Rightarrow> student option
     \<Rightarrow> response \<times> row list" where
  "post_student_update_seq dateParse now istTime rows mobileNo updates =
     (let (res, w) = post_student_update dateParse now istTime rows mobileNo updates
      in (res, applyWrite w rows))"

section \<open>Example data\<close>

text \<open>
  The creation payload of the specification's example, a clock reading, and sheets
  that hold a row for the number of that payload or for another number.
\<close>

definition exampleRequest :: studentRequest where
  "exampleRequest =
     \<lparr>Name = Some (JStr ''A''), MobileNo = Some (JStr ''98765 43210''),
      District = Some (JStr ''X''), State = Some (JStr ''Y''),
      Paid = Some (JStr ''Yes''), FeeAmount = Some (JStr ''500'')\<rparr>"

definition exampleDate :: jsdate where
  "exampleDate =
     \<lparr>getUTCFullYear = 2024, getUTCMonth = 0, getUTCDate = 5, getUTCHours = 9,
      getUTCMinutes = 3, getUTCSeconds = 7, getUTCMilliseconds = 42\<rparr>"

definition exampleSheet :: "row list" where
  "exampleSheet =
     [[''B'', ''98765-43210'', ''X'', ''Y'', ''Yes'', ''500'', ''Yes'', ''No'',
       ''2024-01-01T10:00:00.000+05:30'', [], [], ''2024-01-01T10:00:00.000+05:30'']]"

definition paddedSheet :: "row list" where
  \<comment> \<open>the same row with a space before the text of \<^verbatim>\<open>CreatedAt\<close>\<close>
  "paddedSheet =
     [[''B'', ''98765-43210'', ''X'', ''Y'', ''Yes'', ''500'', ''Yes'', ''No'',
       ''2024-01-01T10:00:00.000+05:30'', [], [], '' 2024-01-01T10:00:00.000+05:30'']]"

definition otherSheet :: "row list" where
  \<comment> \<open>one row, of another student\<close>
  "otherSheet =
     [[''C'', ''91234 56789'', ''X'', ''Y'', ''No'', ''400'', ''Yes'', ''No'',
       ''2024-01-01T10:00:00.000+05:30'', [], [], ''2024-01-01T10:00:00.000+05:30'']]"

definition twoStudentSheet :: "row list" where
  \<comment> \<open>the row of \<open>otherSheet\<close>, then the row of \<open>exampleSheet\<close>\<close>
  "twoStudentSheet =
     [[''C'', ''91234 56789'', ''X'', ''Y'', ''No'', ''400'', ''Yes'', ''No'',
       ''2024-01-01T10:00:00.000+05:30'', [], [], ''2024-01-01T10:00:00.000+05:30''],
      [''B'', ''98765-43210'', ''X'', ''Y'', ''Yes'', ''500'', ''Yes'', ''No'',
       ''2024-01-01T10:00:00.000+05:30'', [], [], ''2024-01-01T10:00:00.000+05:30'']]"

definition numericNameRequest :: studentRequest where
  \<comment> \<open>the example payload with \<^verbatim>\<open>Name: 5\<close>\<close>
  "numericNameRequest = exampleRequest\<lparr>Name := Some (JNum 5)\<rparr>"

definition exampleParse :: "string \<Rightarrow> int option" where
  \<comment> \<open>\<^verbatim>\<open>new Date(value).getTime()\<close> on the one timestamp of the example sheets\<close>
  "exampleParse v =
     (if v = ''2024-01-01T10:00:00.000+05:30'' then Some 1704083400000 else None)"

definition retakeUpdates :: student where
  \<comment> \<open>\<^verbatim>\<open>updates: {RetakeAllowed: 'Yes'}\<close>, what the console sends for a retake\<close>
  "retakeUpdates = [''RetakeAllowed'' \<mapsto> JStr ''Yes'']"

definition forgedUpdates :: student where
  \<comment> \<open>\<^verbatim>\<open>updates: {CreatedAt: '2030-01-01T00:00:00.000+05:30', Paid: true}\<close>\<close>
  "forgedUpdates =
     [''CreatedAt'' \<mapsto> JStr ''2030-01-01T00:00:00.000+05:30'', ''Paid'' \<mapsto> JBool True]"

definition backdatedUpdates :: student where
  \<comment> \<open>\<^verbatim>\<open>updates: {Attempted: true, LastApprovedAt: '2000-01-01T00:00:00.000+05:30'}\<close>\<close>
  "backdatedUpdates =
     [''Attempted'' \<mapsto> JBool True,
      ''LastApprovedAt'' \<mapsto> JStr ''2000-01-01T00:00:00.000+05:30'']"

definition backdatedParse :: "string \<Rightarrow> int option" where
  \<comment> \<open>\<^verbatim>\<open>new Date(value).getTime()\<close> on the timestamp of \<open>backdatedUpdates\<close> as well\<close>
  "backdatedParse v =
     (if v = ''2000-01-01T00:00:00.000+05:30'' then Some 946665000000 else exampleParse v)"

definition blankSheet :: "row list" where
  \<comment> \<open>a row entered by hand up to \<^verbatim>\<open>FeeAmount\<close>: the cells after it are empty, and
      the store returns a row without its trailing empty cells\<close>
  "blankSheet = [[''B'', ''9876543210'', ''X'', ''Y'', ''No'', ''500'']]"

definition paidUpdates :: student where
  \<comment> \<open>\<^verbatim>\<open>updates: {Paid: 'Yes'}\<close>\<close>
  "paidUpdates = [''Paid'' \<mapsto> JStr ''Yes'']"

section \<open>Strings: trimming and digits\<close>

lemma trim_Nil: "trim [] = []"
  by (simp add: trim_def)

lemma trim_noop:
  assumes "s \<noteq> []" "\<not> isSpace (hd s)" "\<not> isSpace (last s)"
  shows "trim s = s"
proof -
  from assms(1,2) have a: "dropWhile isSpace s = s"
    by (cases s) simp_all
  from assms(1,3) have b: "dropWhile isSpace (rev s) = rev s"
    by (cases "rev s") (simp_all add: last_rev [symmetric] hd_rev)
  show ?thesis by (simp add: trim_def a b)
qed

lemma isDigit_not_isSpace: "isDigit c \<Longrightarrow> \<not> isSpace c"
  by (auto simp: isDigit_def isSpace_def)

lemma trim_digits:
  assumes "\<forall>c\<in>set s. isDigit c"
  shows "trim s = s"
proof (cases "s = []")
  case True
  then show ?thesis by (simp add: trim_Nil)
next
  case False
  then have "hd s \<in> set s" "last s \<in> set s" by simp_all
  with assms have "\<not> isSpace (hd s)" "\<not> isSpace (last s)"
    using isDigit_not_isSpace by blast+
  with False show ?thesis by (rule trim_noop)
qed

lemma trim_idem: "trim (trim s) = trim s"
proof (cases "trim s = []")
  case True
  then show ?thesis by (simp add: trim_Nil)
next
  case False
  let ?u = "dropWhile isSpace s"
  let ?v = "dropWhile isSpace (rev ?u)"
  have ts: "trim s = rev ?v" by (simp add: trim_def)
  from False ts have v: "?v \<noteq> []" by simp
  have u: "?u \<noteq> []"
  proof
    assume e: "?u = []"
    have "?v = dropWhile isSpace (rev [])" by (simp only: e)
    then have "?v = []" by (simp only: rev.simps dropWhile.simps)
    with v show False by simp
  qed
  have lastp: "\<not> isSpace (hd ?v)" using v by (rule hd_dropWhile)
  have "\<not> isSpace (hd ?u)" using u by (rule hd_dropWhile)
  moreover have "hd (rev ?v) = hd ?u"
  proof -
    have "rev ?u = takeWhile isSpace (rev ?u) @ ?v" by simp
    then have "?u = rev ?v @ rev (takeWhile isSpace (rev ?u))"
      by (metis rev_append rev_rev_ident)
    then show ?thesis using v by (metis hd_append2 rev_is_Nil_conv)
  qed
  ultimately have h: "\<not> isSpace (hd (trim s))" by (simp add: ts)
  have l: "\<not> isSpace (last (trim s))" using lastp v by (simp add: ts last_rev)
  from False h l show ?thesis by (rule trim_noop)
qed

lemma digitChar_isDigit: "d < 10 \<Longrightarrow> isDigit (digitChar d)"
proof -
  assume "d < 10"
  then have "d \<in> {0,1,2,3,4,5,6,7,8,9}" by auto
  then show ?thesis by (auto simp: isDigit_def digitChar_def)
qed

lemma showNat_digits: "showNat n \<noteq> [] \<and> (\<forall>c\<in>set (showNat n). isDigit c)"
proof (induction n rule: showNat.induct)
  case (1 n)
  show ?case
  proof (cases "n < 10")
    case True
    then show ?thesis by (simp add: showNat.simps [of n] digitChar_isDigit)
  next
    case False
    with 1 show ?thesis by (simp add: showNat.simps [of n] digitChar_isDigit)
  qed
qed

lemma normalizeMobileNumber_JStr: "normalizeMobileNumber (Some (JStr s)) = filter isDigit s"
  by (cases s) (simp_all add: normalizeMobileNumber_def)

lemma normalizeYesNo_cases: "normalizeYesNo v = ''Yes'' \<or> normalizeYesNo v = ''No''"
  by (cases v rule: normalizeYesNo.cases) simp_all

section \<open>Rows, student objects and searching\<close>

lemma trim_header [simp]:
  "trim ''Name'' = ''Name''" "trim ''MobileNo'' = ''MobileNo''" "trim ''District'' = ''District''"
  "trim ''State'' = ''State''" "trim ''Paid'' = ''Paid''" "trim ''FeeAmount'' = ''FeeAmount''"
  "trim ''Attempted'' = ''Attempted''" "trim ''RetakeAllowed'' = ''RetakeAllowed''"
  "trim ''LastApprovedAt'' = ''LastApprovedAt''" "trim ''CreatedAt'' = ''CreatedAt''"
  "trim [] = []"
  by (simp_all add: trim_def isSpace_def)

lemma mapRowToStudent_eq:
  "mapRowToStudent r n =
     [''Name'' \<mapsto> JStr (cell r 0), ''MobileNo'' \<mapsto> JStr (cell r 1),
      ''District'' \<mapsto> JStr (cell r 2), ''State'' \<mapsto> JStr (cell r 3),
      ''Paid'' \<mapsto> JStr (cell r 4), ''FeeAmount'' \<mapsto> JStr (cell r 5),
      ''Attempted'' \<mapsto> JStr (cell r 6), ''RetakeAllowed'' \<mapsto> JStr (cell r 7),
      ''LastApprovedAt'' \<mapsto> JStr (cell r 8), ''_columnJ'' \<mapsto> JStr (cell r 9),
      ''_columnK'' \<mapsto> JStr (cell r 10), ''CreatedAt'' \<mapsto> JStr (cell r 11),
      ''rowNumber'' \<mapsto> JNum (int n)]"
  by (simp add: mapRowToStudent_def HEADERS_def eval_nat_numeral)

lemma buildRowFromStudent_eq:
  "buildRowFromStudent s =
     Inr [namedCell (s ''Name''), namedCell (s ''MobileNo''), namedCell (s ''District''),
          namedCell (s ''State''), namedCell (s ''Paid''), namedCell (s ''FeeAmount''),
          namedCell (s ''Attempted''), namedCell (s ''RetakeAllowed''),
          namedCell (s ''LastApprovedAt''), nullish (s ''_columnJ'') (JStr []),
          nullish (s ''_columnK'') (JStr []), namedCell (s ''CreatedAt'')]"
  by (simp add: buildRowFromStudent_def HEADERS_def eval_nat_numeral)

lemma mapRowToStudent_fields:
  "mapRowToStudent r n ''Name'' = Some (JStr (cell r 0))"
  "mapRowToStudent r n ''MobileNo'' = Some (JStr (cell r 1))"
  "mapRowToStudent r n ''District'' = Some (JStr (cell r 2))"
  "mapRowToStudent r n ''State'' = Some (JStr (cell r 3))"
  "mapRowToStudent r n ''Paid'' = Some (JStr (cell r 4))"
  "mapRowToStudent r n ''FeeAmount'' = Some (JStr (cell r 5))"
  "mapRowToStudent r n ''Attempted'' = Some (JStr (cell r 6))"
  "mapRowToStudent r n ''RetakeAllowed'' = Some (JStr (cell r 7))"
  "mapRowToStudent r n ''LastApprovedAt'' = Some (JStr (cell r 8))"
  "mapRowToStudent r n ''_columnJ'' = Some (JStr (cell r 9))"
  "mapRowToStudent r n ''_columnK'' = Some (JStr (cell r 10))"
  "mapRowToStudent r n ''CreatedAt'' = Some (JStr (cell r 11))"
  "mapRowToStudent r n ''rowNumber'' = Some (JNum (int n))"
  by (simp_all add: mapRowToStudent_eq)

lemma rowNumberOf_mapRowToStudent: "rowNumberOf (mapRowToStudent r n) = n"
  by (simp add: rowNumberOf_def mapRowToStudent_fields)

lemma findIndex_Some:
  "findIndex P xs = Some i \<Longrightarrow> i < length xs \<and> P (xs ! i) \<and> (\<forall>j<i. \<not> P (xs ! j))"
proof (induction xs arbitrary: i)
  case Nil
  then show ?case by simp
next
  case (Cons x xs)
  show ?case
  proof (cases "P x")
    case True
    with Cons.prems show ?thesis by simp
  next
    case False
    with Cons.prems obtain k where k: "findIndex P xs = Some k" "i = Suc k"
      by auto
    from Cons.IH [OF k(1)] False k(2) show ?thesis
      by (auto simp: less_Suc_eq_0_disj)
  qed
qed

lemma findIndex_None: "findIndex P xs = None \<longleftrightarrow> (\<forall>x\<in>set xs. \<not> P x)"
  by (induction xs) auto

lemma findIndex_update:
  "findIndex P xs = Some i \<Longrightarrow> P y \<Longrightarrow> findIndex P (xs[i := y]) = Some i"
proof (induction xs arbitrary: i)
  case Nil
  then show ?case by simp
next
  case (Cons x xs)
  show ?case
  proof (cases "P x")
    case True
    with Cons.prems show ?thesis by simp
  next
    case False
    with Cons.prems obtain k where k: "findIndex P xs = Some k" "i = Suc k"
      by auto
    from Cons.IH [OF k(1) Cons.prems(2)] False k(2) show ?thesis by simp
  qed
qed

lemma findIndex_append_new:
  "findIndex P xs = None \<Longrightarrow> P y \<Longrightarrow> findIndex P (xs @ [y]) = Some (length xs)"
  by (induction xs) (auto split: if_splits)

lemma filter_update_same:
  "i < length xs \<Longrightarrow> P (xs ! i) \<Longrightarrow> P y \<Longrightarrow> length (filter P (xs[i := y])) = length (filter P xs)"
proof (induction xs arbitrary: i)
  case Nil
  then show ?case by simp
next
  case (Cons x xs)
  then show ?case by (cases i) simp_all
qed

section \<open>The handlers on a record that exists\<close>

lemma showInt_hd: "showInt i \<noteq> [] \<and> \<not> isSpace (hd (showInt i))"
proof (cases "i < 0")
  case True
  then show ?thesis by (simp add: showInt_def isSpace_def)
next
  case False
  from showNat_digits [of "nat i"] have ne: "showNat (nat i) \<noteq> []"
    and dg: "\<forall>c\<in>set (showNat (nat i)). isDigit c" by simp_all
  from ne have "hd (showNat (nat i)) \<in> set (showNat (nat i))" by simp
  with dg have "isDigit (hd (showNat (nat i)))" by blast
  then have "\<not> isSpace (hd (showNat (nat i)))" by (rule isDigit_not_isSpace)
  with ne False show ?thesis by (simp add: showInt_def)
qed

lemma trim_getCurrentISTTimestamp: "trim (getCurrentISTTimestamp t) = getCurrentISTTimestamp t"
proof -
  obtain rest where ts: "getCurrentISTTimestamp t = showInt (getUTCFullYear t) @ rest @ ''+05:30''"
    by (simp add: getCurrentISTTimestamp_def Let_def)
  have ne: "getCurrentISTTimestamp t \<noteq> []" by (simp add: ts)
  have h: "hd (getCurrentISTTimestamp t) = hd (showInt (getUTCFullYear t))"
    using showInt_hd [of "getUTCFullYear t"] by (simp add: ts)
  have l: "last (getCurrentISTTimestamp t) = CHR ''0''"
    by (simp add: ts)
  have "\<not> isSpace (hd (getCurrentISTTimestamp t))"
    using showInt_hd [of "getUTCFullYear t"] by (simp add: h)
  moreover have "\<not> isSpace (last (getCurrentISTTimestamp t))"
    by (simp add: l isSpace_def)
  ultimately show ?thesis using ne by (simp add: trim_noop)
qed

lemma trim_YesNo [simp]: "trim ''Yes'' = ''Yes''" "trim ''No'' = ''No''"
  by (simp_all add: trim_def isSpace_def)

lemma trim_normalizeYesNo: "trim (normalizeYesNo v) = normalizeYesNo v"
  using normalizeYesNo_cases [of v] by auto

lemma normalizeMobileNumber_digits: "\<forall>c\<in>set (normalizeMobileNumber v). isDigit c"
  by (simp add: normalizeMobileNumber_def)

lemma trim_normalizeMobileNumber: "trim (normalizeMobileNumber v) = normalizeMobileNumber v"
  by (rule trim_digits) (rule normalizeMobileNumber_digits)

lemma normalizeMobileNumber_idem:
  "normalizeMobileNumber (Some (JStr (normalizeMobileNumber v))) = normalizeMobileNumber v"
  by (simp add: normalizeMobileNumber_JStr) (simp add: normalizeMobileNumber_def)

lemma orElse_JStr: "orElse (Some (JStr s)) (JStr []) = JStr s"
  by (simp add: orElse_def)

lemma namedCell_JStr: "namedCell (Some (JStr s)) = JStr (trim s)"
  by (simp add: namedCell_def)

lemma updateExisting_found:
  assumes "Name req = Some (JStr name)" "District req = Some (JStr district)"
    "State req = Some (JStr state)"
  shows "updateExisting req n paid (mapRowToStudent r k) =
     Inr (Response 200 (StudentUpdated
            ((mapRowToStudent r k)
               (''Name'' \<mapsto> JStr (trim name), ''MobileNo'' \<mapsto> JStr n,
                ''District'' \<mapsto> JStr (trim district), ''State'' \<mapsto> JStr (trim state),
                ''Paid'' \<mapsto> JStr paid,
                ''FeeAmount'' \<mapsto> (if feeProvided (FeeAmount req)
                      then JStr (trim (jsString (the (FeeAmount req))))
                      else JStr (cell r 5)),
                ''CreatedAt'' \<mapsto> JStr (cell r 11),
                ''LastApprovedAt'' \<mapsto> JStr (cell r 8),
                ''_columnJ'' \<mapsto> JStr (cell r 9),
                ''_columnK'' \<mapsto> JStr (cell r 10)))),
          UpdateRow k
            [JStr (trim name), JStr (trim n), JStr (trim district), JStr (trim state),
             JStr (trim paid),
             JStr (trim (if feeProvided (FeeAmount req)
                      then jsString (the (FeeAmount req)) else cell r 5)),
             JStr (trim (cell r 6)), JStr (trim (cell r 7)), JStr (trim (cell r 8)),
             JStr (cell r 9), JStr (cell r 10), JStr (trim (cell r 11))])"
  using assms
  by (simp add: updateExisting_def buildRowFromStudent_eq mapRowToStudent_fields
      rowNumberOf_mapRowToStudent orElse_JStr namedCell_JStr trim_idem Let_def)

lemma findStudentByMobile_eq:
  "findStudentByMobile rows m =
     map_option (\<lambda>i. mapRowToStudent (rows ! i) (i + 2))
       (findIndex (rowMatches (filter isDigit m)) rows)"
  by (cases rows) (simp_all add: findStudentByMobile_def startRow_def normalizeMobileNumber_JStr
      Let_def split: option.splits)

lemma findStudentByMobile_SomeD:
  assumes "findStudentByMobile rows (normalizeMobileNumber v) = Some s"
  obtains i where "findIndex (rowMatches (normalizeMobileNumber v)) rows = Some i"
    and "s = mapRowToStudent (rows ! i) (i + 2)" and "i < length rows"
    and "rowMatches (normalizeMobileNumber v) (rows ! i)"
proof -
  have d: "filter isDigit (normalizeMobileNumber v) = normalizeMobileNumber v"
    by (simp add: normalizeMobileNumber_def)
  from assms obtain i where i: "findIndex (rowMatches (normalizeMobileNumber v)) rows = Some i"
    and s: "s = mapRowToStudent (rows ! i) (i + 2)"
    by (auto simp: findStudentByMobile_eq d)
  from findIndex_Some [OF i] have "i < length rows" "rowMatches (normalizeMobileNumber v) (rows ! i)"
    by simp_all
  with i s show ?thesis by (rule that)
qed

lemma rowMatches_nonempty: "rowMatches n r \<Longrightarrow> n \<noteq> []"
  by (auto simp: rowMatches_def Let_def split: if_splits)

lemma rowMatches_written:
  assumes "normalizeMobileNumber v \<noteq> []" "2 \<le> length r" "cell r 1 = normalizeMobileNumber v"
  shows "rowMatches (normalizeMobileNumber v) r"
  using assms by (simp add: rowMatches_def normalizeMobileNumber_idem Let_def)

lemma applyWrite_UpdateRow_in_range:
  "i < length rows \<Longrightarrow> applyWrite (UpdateRow (i + 2) vs) rows = rows[i := map jsString vs]"
  by (simp add: Let_def)

lemma post_student_existing:
  assumes name: "Name req = Some (JStr name)" "name \<noteq> []"
    and district: "District req = Some (JStr district)" "district \<noteq> []"
    and state: "State req = Some (JStr state)" "state \<noteq> []"
    and paid: "Paid req \<noteq> None"
    and fee: "feeProvided (FeeAmount req)"
    and found: "findIndex (rowMatches (normalizeMobileNumber (MobileNo req))) rows = Some i"
  shows "\<exists>u fee'. post_student t1 t2 rows rows2 rows3 rows4 req =
      (Response 200 (StudentUpdated u),
       UpdateRow (i + 2)
         [JStr (trim name), JStr (normalizeMobileNumber (MobileNo req)), JStr (trim district),
          JStr (trim state), JStr (normalizeYesNo (Paid req)), JStr fee',
          JStr (trim (cell (rows ! i) 6)), JStr (trim (cell (rows ! i) 7)),
          JStr (trim (cell (rows ! i) 8)), JStr (cell (rows ! i) 9), JStr (cell (rows ! i) 10),
          JStr (trim (cell (rows ! i) 11))])
      \<and> u ''CreatedAt'' = Some (JStr (cell (rows ! i) 11))
      \<and> u ''LastApprovedAt'' = Some (JStr (cell (rows ! i) 8))
      \<and> u ''MobileNo'' = Some (JStr (normalizeMobileNumber (MobileNo req)))"
proof -
  let ?n = "normalizeMobileNumber (MobileNo req)"
  from findIndex_Some [OF found] have "rowMatches ?n (rows ! i)" by simp
  then have ne: "?n \<noteq> []" by (rule rowMatches_nonempty)
  then have tm: "truthy (MobileNo req)" by (auto simp: normalizeMobileNumber_def split: if_splits)
  have d: "filter isDigit ?n = ?n" by (simp add: normalizeMobileNumber_def)
  have f: "findStudentByMobile rows ?n = Some (mapRowToStudent (rows ! i) (i + 2))"
    by (simp add: findStudentByMobile_eq d found)
  have "post_student_try t1 t2 rows rows2 rows3 rows4 req =
      updateExisting req ?n (normalizeYesNo (Paid req)) (mapRowToStudent (rows ! i) (i + 2))"
    using ne by (simp add: post_student_try_def f Let_def)
  then show ?thesis
    using name district state paid fee tm
    by (simp add: post_student_def updateExisting_found [OF name(1) district(1) state(1)]
        trim_normalizeYesNo trim_normalizeMobileNumber)
qed

lemma acceptedRequestD:
  assumes "passesChecks req \<and> stringFields req"
  obtains name district state where
    "Name req = Some (JStr name)" "name \<noteq> []"
    "District req = Some (JStr district)" "district \<noteq> []"
    "State req = Some (JStr state)" "state \<noteq> []"
    "Paid req \<noteq> None" "feeProvided (FeeAmount req)"
    "normalizeMobileNumber (MobileNo req) \<noteq> []" "truthy (MobileNo req)"
proof -
  from assms have a: "truthy (Name req)" "trimMethod (Name req) \<noteq> None"
    and b: "truthy (District req)" "trimMethod (District req) \<noteq> None"
    and c: "truthy (State req)" "trimMethod (State req) \<noteq> None"
    and d: "Paid req \<noteq> None" "feeProvided (FeeAmount req)"
      "normalizeMobileNumber (MobileNo req) \<noteq> []" "truthy (MobileNo req)"
    by (simp_all add: passesChecks_def stringFields_def)
  from a obtain name where "Name req = Some (JStr name)" "name \<noteq> []"
    by (cases "Name req" rule: trimMethod.cases) auto
  moreover from b obtain district where "District req = Some (JStr district)" "district \<noteq> []"
    by (cases "District req" rule: trimMethod.cases) auto
  moreover from c obtain state where "State req = Some (JStr state)" "state \<noteq> []"
    by (cases "State req" rule: trimMethod.cases) auto
  ultimately show ?thesis using d by (rule that)
qed

lemma updateExisting_TypeError:
  assumes "trimMethod (Name req) = None \<or> trimMethod (District req) = None
     \<or> trimMethod (State req) = None"
  shows "updateExisting req n paid existing = Inl TypeError"
  using assms by (auto simp: updateExisting_def split: option.splits)

lemma post_student_found_cases:
  assumes found: "findIndex (rowMatches (normalizeMobileNumber (MobileNo req))) rows = Some i"
  shows "(\<exists>st e. post_student t1 t2 rows rows2 rows3 rows4 req = (Response st (ErrorBody e), NoWrite)
            \<and> st \<noteq> 201)
       \<or> (\<exists>u vals. post_student t1 t2 rows rows2 rows3 rows4 req =
              (Response 200 (StudentUpdated u), UpdateRow (i + 2) vals)
            \<and> length vals = 12
            \<and> vals ! 1 = JStr (normalizeMobileNumber (MobileNo req)))"
proof (cases "passesChecks req \<and> stringFields req")
  case True
  then obtain name district state where v:
    "Name req = Some (JStr name)" "name \<noteq> []"
    "District req = Some (JStr district)" "district \<noteq> []"
    "State req = Some (JStr state)" "state \<noteq> []"
    "Paid req \<noteq> None" "feeProvided (FeeAmount req)"
    by (rule acceptedRequestD)
  from post_student_existing [OF v found, of t1 t2 rows2 rows3 rows4]
  show ?thesis by auto
next
  case False
  let ?n = "normalizeMobileNumber (MobileNo req)"
  from findIndex_Some [OF found] have "rowMatches ?n (rows ! i)" by simp
  then have ne: "?n \<noteq> []" by (rule rowMatches_nonempty)
  then have tm: "truthy (MobileNo req)"
    by (auto simp: normalizeMobileNumber_def split: if_splits)
  have d: "filter isDigit ?n = ?n" by (simp add: normalizeMobileNumber_def)
  have f: "findStudentByMobile rows ?n = Some (mapRowToStudent (rows ! i) (i + 2))"
    by (simp add: findStudentByMobile_eq d found)
  have t: "post_student_try t1 t2 rows rows2 rows3 rows4 req =
      updateExisting req ?n (normalizeYesNo (Paid req)) (mapRowToStudent (rows ! i) (i + 2))"
    using ne by (simp add: post_student_try_def f Let_def)
  show ?thesis
  proof (cases "trimMethod (Name req) = None \<or> trimMethod (District req) = None
     \<or> trimMethod (State req) = None")
    case True
    then have "post_student_try t1 t2 rows rows2 rows3 rows4 req = Inl TypeError"
      by (simp only: t updateExisting_TypeError)
    then show ?thesis by (simp add: post_student_def)
  next
    case nt: False
    with False ne tm have "\<not> truthy (Name req) \<or> \<not> truthy (District req) \<or> \<not> truthy (State req)
        \<or> Paid req = None \<or> \<not> feeProvided (FeeAmount req)"
      by (auto simp: passesChecks_def stringFields_def)
    then show ?thesis by (auto simp: post_student_def)
  qed
qed

section \<open>The update handler on a record that exists\<close>

lemma normalizedUpdates_fields:
  fixes updates :: student
  defines "nu \<equiv> normalizeField ''RetakeAllowed''
                   (normalizeField ''Attempted'' (normalizeField ''Paid'' updates))"
  shows "nu ''Paid'' = (if updates ''Paid'' = None then None
                         else Some (JStr (normalizeYesNo (updates ''Paid''))))"
    and "nu ''Attempted'' = (if updates ''Attempted'' = None then None
                         else Some (JStr (normalizeYesNo (updates ''Attempted''))))"
    and "nu ''RetakeAllowed'' = (if updates ''RetakeAllowed'' = None then None
                         else Some (JStr (normalizeYesNo (updates ''RetakeAllowed''))))"
    and "k \<noteq> ''Paid'' \<Longrightarrow> k \<noteq> ''Attempted'' \<Longrightarrow> k \<noteq> ''RetakeAllowed'' \<Longrightarrow> nu k = updates k"
  by (simp_all add: nu_def normalizeField_def)

lemma isRetakeRequest_iff:
  fixes updates :: student
  defines "nu \<equiv> normalizeField ''RetakeAllowed''
                   (normalizeField ''Attempted'' (normalizeField ''Paid'' updates))"
  shows "(nu ''RetakeAllowed'' \<noteq> None \<and> nu ''RetakeAllowed'' = Some (JStr ''Yes''))
           \<longleftrightarrow> normalizeYesNo (updates ''RetakeAllowed'') = ''Yes''"
    and "(nu ''Attempted'' \<noteq> None \<and> nu ''Attempted'' = Some (JStr ''Yes'') \<and> P)
           \<longleftrightarrow> (normalizeYesNo (updates ''Attempted'') = ''Yes'' \<and> P)"
  unfolding nu_def
  by (auto simp: normalizedUpdates_fields)

lemma restoreColumn_apply:
  "restoreColumn k s u k' =
     (if k' = k \<and> \<not> truthy (u k) then Some (nullish (s k) (JStr [])) else u k')"
  by (simp add: restoreColumn_def)

lemma preserveFeeAmount_apply:
  "preserveFeeAmount s u k' =
     (if k' = ''FeeAmount'' \<and> (u ''FeeAmount'' = None \<or> u ''FeeAmount'' = Some JNull)
      then Some (nullish (s ''FeeAmount'') (JStr [])) else u k')"
  by (simp add: preserveFeeAmount_def)

lemma stampLastApprovedAt_apply:
  "stampLastApprovedAt refresh istTime s u k' =
     (if k' = ''LastApprovedAt'' then
        (if refresh then Some (JStr (getCurrentISTTimestamp istTime))
         else if u ''LastApprovedAt'' = None
         then Some (nullish (s ''LastApprovedAt'') (JStr []))
         else u ''LastApprovedAt'')
      else u k')"
  by (simp add: stampLastApprovedAt_def)

lemma keepCreatedAt_apply:
  "keepCreatedAt s u k' =
     (if k' = ''CreatedAt'' then Some (nullish (s ''CreatedAt'') (JStr [])) else u k')"
  by (simp add: keepCreatedAt_def Let_def)

lemmas mergeUpdates_apply =
  mergeUpdates_def Let_def keepCreatedAt_apply stampLastApprovedAt_apply
  preserveFeeAmount_apply restoreColumn_apply map_add_def

lemma mergeUpdates_CreatedAt:
  "mergeUpdates s nu n refresh istTime ''CreatedAt'' = Some (nullish (s ''CreatedAt'') (JStr []))"
  by (simp add: mergeUpdates_apply)

lemma mergeUpdates_MobileNo:
  "mergeUpdates s nu n refresh istTime ''MobileNo'' = Some (JStr n)"
  by (simp add: mergeUpdates_apply)

lemma mergeUpdates_LastApprovedAt:
  "mergeUpdates s nu n refresh istTime ''LastApprovedAt'' =
     (if refresh then Some (JStr (getCurrentISTTimestamp istTime))
      else (case nu ''LastApprovedAt'' of
              Some v \<Rightarrow> Some v
            | None \<Rightarrow> (case s ''LastApprovedAt'' of
                          Some v \<Rightarrow> Some v
                        | None \<Rightarrow> Some (JStr []))))"
  by (simp add: mergeUpdates_apply split: option.splits)

lemma mergeUpdates_plain:
  "mergeUpdates s nu n refresh istTime ''Name'' =
     (case nu ''Name'' of Some v \<Rightarrow> Some v | None \<Rightarrow> s ''Name'')"
  "mergeUpdates s nu n refresh istTime ''District'' =
     (case nu ''District'' of Some v \<Rightarrow> Some v | None \<Rightarrow> s ''District'')"
  "mergeUpdates s nu n refresh istTime ''State'' =
     (case nu ''State'' of Some v \<Rightarrow> Some v | None \<Rightarrow> s ''State'')"
  "mergeUpdates s nu n refresh istTime ''Paid'' =
     (case nu ''Paid'' of Some v \<Rightarrow> Some v | None \<Rightarrow> s ''Paid'')"
  "mergeUpdates s nu n refresh istTime ''Attempted'' =
     (case nu ''Attempted'' of Some v \<Rightarrow> Some v | None \<Rightarrow> s ''Attempted'')"
  "mergeUpdates s nu n refresh istTime ''RetakeAllowed'' =
     (case nu ''RetakeAllowed'' of Some v \<Rightarrow> Some v | None \<Rightarrow> s ''RetakeAllowed'')"
  by (simp_all add: mergeUpdates_apply)

lemma truthy_mobile: "normalizeMobileNumber v \<noteq> [] \<Longrightarrow> truthy v"
  by (auto simp: normalizeMobileNumber_def split: if_splits)

text \<open>The result of the update handler on a record that the lookup finds.\<close>

lemma post_student_update_found:
  fixes updates :: student and istTime :: jsdate
  assumes found: "findStudentByMobile rows (normalizeMobileNumber mobileNo) = Some s"
  defines "nu \<equiv> normalizeField ''RetakeAllowed''
                   (normalizeField ''Attempted'' (normalizeField ''Paid'' updates))"
  defines "retake \<equiv> normalizeYesNo (updates ''RetakeAllowed'') = ''Yes''"
  defines "approval \<equiv> normalizeYesNo (updates ''Attempted'') = ''Yes''
                        \<and> normalizeYesNo (s ''Attempted'') \<noteq> ''Yes''"
  defines "u \<equiv> mergeUpdates s nu (normalizeMobileNumber mobileNo) (retake \<or> approval) istTime"
  shows "post_student_update dateParse now istTime rows mobileNo (Some updates) =
     (case retakeRejection dateParse now retake s of
        Some remainingHours \<Rightarrow> (Response 409 (CooldownBody remainingHours), NoWrite)
      | None \<Rightarrow>
         (Response 200 (StudentBody u),
          UpdateRow (rowNumberOf s)
            [namedCell (u ''Name''), namedCell (u ''MobileNo''),
             namedCell (u ''District''), namedCell (u ''State''), namedCell (u ''Paid''),
             namedCell (u ''FeeAmount''), namedCell (u ''Attempted''),
             namedCell (u ''RetakeAllowed''), namedCell (u ''LastApprovedAt''),
             nullish (u ''_columnJ'') (JStr []), nullish (u ''_columnK'') (JStr []),
             namedCell (u ''CreatedAt'')]))"
proof -
  let ?n = "normalizeMobileNumber mobileNo"
  from found obtain i where "rowMatches ?n (rows ! i)"
    by (rule findStudentByMobile_SomeD)
  then have ne: "?n \<noteq> []" by (rule rowMatches_nonempty)
  then have tm: "truthy mobileNo" by (rule truthy_mobile)
  have r: "(nu ''RetakeAllowed'' \<noteq> None \<and> nu ''RetakeAllowed'' = Some (JStr ''Yes'')) = retake"
    unfolding nu_def retake_def by (rule isRetakeRequest_iff(1))
  have a: "(nu ''Attempted'' \<noteq> None \<and> nu ''Attempted'' = Some (JStr ''Yes'')
        \<and> normalizeYesNo (s ''Attempted'') \<noteq> ''Yes'') = approval"
    unfolding nu_def approval_def by (rule isRetakeRequest_iff(2))
  have "post_student_update_try dateParse now istTime rows mobileNo updates =
     (case retakeRejection dateParse now retake s of
        Some remainingHours \<Rightarrow> Inr (Response 409 (CooldownBody remainingHours), NoWrite)
      | None \<Rightarrow>
         Inr (Response 200 (StudentBody u),
          UpdateRow (rowNumberOf s)
            [namedCell (u ''Name''), namedCell (u ''MobileNo''),
             namedCell (u ''District''), namedCell (u ''State''), namedCell (u ''Paid''),
             namedCell (u ''FeeAmount''), namedCell (u ''Attempted''),
             namedCell (u ''RetakeAllowed''), namedCell (u ''LastApprovedAt''),
             nullish (u ''_columnJ'') (JStr []), nullish (u ''_columnK'') (JStr []),
             namedCell (u ''CreatedAt'')]))"
    unfolding post_student_update_try_def Let_def
    using ne
    by (simp only: found r a option.case if_False buildRowFromStudent_eq
        nu_def [symmetric] u_def [symmetric])
       (simp split: option.splits)
  then show ?thesis
    using tm by (simp add: post_student_update_def split: option.splits)
qed

lemma findStudentByMobile_update:
  assumes fi: "findIndex (rowMatches (normalizeMobileNumber v)) rows = Some i"
    and len: "2 \<le> length r" and c: "cell r 1 = normalizeMobileNumber v"
  shows "findStudentByMobile (rows[i := r]) (normalizeMobileNumber v)
           = Some (mapRowToStudent r (i + 2))"
proof -
  let ?n = "normalizeMobileNumber v"
  from findIndex_Some [OF fi] have il: "i < length rows" and m: "rowMatches ?n (rows ! i)"
    by simp_all
  from m have ne: "?n \<noteq> []" by (rule rowMatches_nonempty)
  have d: "filter isDigit ?n = ?n" by (simp add: normalizeMobileNumber_def)
  from ne len c have "rowMatches ?n r" by (rule rowMatches_written)
  from findIndex_update [OF fi this] il show ?thesis
    by (simp add: findStudentByMobile_eq d)
qed

lemma ceilDiv_hours:
  assumes "0 < a" "a \<le> 43200000"
  shows "1 \<le> ceilDiv a 3600000" "ceilDiv a 3600000 \<le> 12"
    "(ceilDiv a 3600000 - 1) * 3600000 < a" "a \<le> ceilDiv a 3600000 * 3600000"
proof -
  define q where "q = (- a) div 3600000"
  define m where "m = (- a) mod 3600000"
  have e: "- a = 3600000 * q + m" by (simp add: q_def m_def)
  have m: "0 \<le> m" "m < 3600000" by (simp_all add: m_def)
  have c: "ceilDiv a 3600000 = - q" by (simp add: ceilDiv_def q_def)
  from e m assms show "1 \<le> ceilDiv a 3600000" unfolding c by linarith
  from e m assms show "ceilDiv a 3600000 \<le> 12" unfolding c by linarith
  from e m assms show "(ceilDiv a 3600000 - 1) * 3600000 < a"
    unfolding c by (simp add: left_diff_distrib)
  from e m assms show "a \<le> ceilDiv a 3600000 * 3600000"
    unfolding c by simp
qed

lemma retakeRejection_recent:
  assumes "parseIsoDate dateParse (s ''LastApprovedAt'') = Some t"
    and "now - t < TWELVE_HOURS_MS"
  shows "retakeRejection dateParse now True s
           = Some (ceilDiv (TWELVE_HOURS_MS - (now - t)) (60 * 60 * 1000))"
  using assms by (simp add: retakeRejection_def Let_def)

lemma retakeRejection_elapsed:
  assumes "parseIsoDate dateParse (s ''LastApprovedAt'') = None
     \<or> (\<exists>t. parseIsoDate dateParse (s ''LastApprovedAt'') = Some t \<and> TWELVE_HOURS_MS \<le> now - t)"
  shows "retakeRejection dateParse now b s = None"
  using assms by (auto simp: retakeRejection_def Let_def)

lemma jsString_namedCell: "JStr (jsString (namedCell v)) = namedCell v"
  by (simp add: namedCell_def split: option.splits jsval.splits)

lemma post_student_update_accepted:
  fixes updates :: student and istTime :: jsdate
  assumes found: "findStudentByMobile rows (normalizeMobileNumber mobileNo) = Some s"
  defines "retake \<equiv> normalizeYesNo (updates ''RetakeAllowed'') = ''Yes''"
  defines "u \<equiv> mergeUpdates s
      (normalizeField ''RetakeAllowed''
         (normalizeField ''Attempted'' (normalizeField ''Paid'' updates)))
      (normalizeMobileNumber mobileNo)
      (retake \<or> normalizeYesNo (updates ''Attempted'') = ''Yes''
                  \<and> normalizeYesNo (s ''Attempted'') \<noteq> ''Yes'')
      istTime"
  assumes rej: "retakeRejection dateParse now retake s = None"
  obtains rows' after where
    "post_student_update_seq dateParse now istTime rows mobileNo (Some updates)
       = (Response 200 (StudentBody u), rows')"
    "length rows' = length rows"
    "\<forall>j<length rows. j \<noteq> rowNumberOf s - 2 \<longrightarrow> rows' ! j = rows ! j"
    "findStudentByMobile rows' (normalizeMobileNumber mobileNo) = Some after"
    "rowNumberOf after = rowNumberOf s"
    "after ''Paid'' = Some (namedCell (u ''Paid''))"
    "after ''Attempted'' = Some (namedCell (u ''Attempted''))"
    "after ''RetakeAllowed'' = Some (namedCell (u ''RetakeAllowed''))"
    "after ''LastApprovedAt'' = Some (namedCell (u ''LastApprovedAt''))"
    "after ''CreatedAt'' = Some (namedCell (u ''CreatedAt''))"
proof -
  let ?n = "normalizeMobileNumber mobileNo"
  from found obtain i where fi: "findIndex (rowMatches ?n) rows = Some i"
    and s: "s = mapRowToStudent (rows ! i) (i + 2)" and il: "i < length rows"
    by (rule findStudentByMobile_SomeD)
  have rn: "rowNumberOf s = i + 2" by (simp add: s rowNumberOf_mapRowToStudent)
  let ?cells = "[namedCell (u ''Name''), namedCell (u ''MobileNo''),
             namedCell (u ''District''), namedCell (u ''State''), namedCell (u ''Paid''),
             namedCell (u ''FeeAmount''), namedCell (u ''Attempted''),
             namedCell (u ''RetakeAllowed''), namedCell (u ''LastApprovedAt''),
             nullish (u ''_columnJ'') (JStr []), nullish (u ''_columnK'') (JStr []),
             namedCell (u ''CreatedAt'')]"
  let ?new = "map jsString ?cells"
  have p: "post_student_update dateParse now istTime rows mobileNo (Some updates)
      = (Response 200 (StudentBody u), UpdateRow (i + 2) ?cells)"
    by (simp only: post_student_update_found [OF found] rej [unfolded retake_def] option.case
        u_def retake_def rn)
  have aw: "applyWrite (UpdateRow (i + 2) ?cells) rows = rows[i := ?new]"
    using il by (rule applyWrite_UpdateRow_in_range)
  have seq: "post_student_update_seq dateParse now istTime rows mobileNo (Some updates)
       = (Response 200 (StudentBody u), rows[i := ?new])"
    by (simp only: post_student_update_seq_def p Let_def prod.case aw)
  have c1: "cell ?new 1 = ?n"
    by (simp add: cell_def u_def mergeUpdates_MobileNo namedCell_JStr trim_normalizeMobileNumber)
  have fa: "findStudentByMobile (rows[i := ?new]) ?n = Some (mapRowToStudent ?new (i + 2))"
    by (rule findStudentByMobile_update [OF fi _ c1]) simp
  show ?thesis
  proof (rule that [OF seq _ _ fa])
    show "length (rows[i := ?new]) = length rows" by simp
    show "\<forall>j<length rows. j \<noteq> rowNumberOf s - 2 \<longrightarrow> rows[i := ?new] ! j = rows ! j"
      by (simp add: rn)
    show "rowNumberOf (mapRowToStudent ?new (i + 2)) = rowNumberOf s"
      by (simp only: rowNumberOf_mapRowToStudent rn)
    show "mapRowToStudent ?new (i + 2) ''Paid'' = Some (namedCell (u ''Paid''))"
      by (simp add: mapRowToStudent_fields cell_def jsString_namedCell)
    show "mapRowToStudent ?new (i + 2) ''Attempted'' = Some (namedCell (u ''Attempted''))"
      by (simp add: mapRowToStudent_fields cell_def jsString_namedCell)
    show "mapRowToStudent ?new (i + 2) ''RetakeAllowed'' = Some (namedCell (u ''RetakeAllowed''))"
      by (simp add: mapRowToStudent_fields cell_def jsString_namedCell)
    show "mapRowToStudent ?new (i + 2) ''LastApprovedAt'' = Some (namedCell (u ''LastApprovedAt''))"
      by (simp add: mapRowToStudent_fields cell_def jsString_namedCell)
    show "mapRowToStudent ?new (i + 2) ''CreatedAt'' = Some (namedCell (u ''CreatedAt''))"
      by (simp add: mapRowToStudent_fields cell_def jsString_namedCell)
  qed
qed

lemma retake_field:
  fixes updates :: student
  assumes "normalizeYesNo (updates ''RetakeAllowed'') = ''Yes''"
  shows "mergeUpdates s
      (normalizeField ''RetakeAllowed''
         (normalizeField ''Attempted'' (normalizeField ''Paid'' updates)))
      n refresh istTime ''RetakeAllowed'' = Some (JStr ''Yes'')"
proof -
  from assms obtain v where "updates ''RetakeAllowed'' = Some v"
    by (cases "updates ''RetakeAllowed''") simp_all
  with assms show ?thesis
    by (simp add: mergeUpdates_plain normalizedUpdates_fields)
qed

section \<open>The create handler when no record exists\<close>

lemma updateExisting_ok:
  assumes "Name req = Some (JStr name)" "District req = Some (JStr district)"
    "State req = Some (JStr state)"
  shows "\<exists>u vals. updateExisting req n paid e =
             Inr (Response 200 (StudentUpdated u), UpdateRow (rowNumberOf e) vals)"
  using assms by (simp add: updateExisting_def buildRowFromStudent_eq Let_def)

lemma findStudentByMobile_NoneD:
  assumes "findStudentByMobile rows (normalizeMobileNumber v) = None"
  shows "findIndex (rowMatches (normalizeMobileNumber v)) rows = None"
proof -
  have d: "filter isDigit (normalizeMobileNumber v) = normalizeMobileNumber v"
    by (simp add: normalizeMobileNumber_def)
  from assms show ?thesis by (simp add: findStudentByMobile_eq d)
qed

lemma findStudentByMobile_append:
  assumes fresh: "findStudentByMobile rows (normalizeMobileNumber v) = None"
    and ne: "normalizeMobileNumber v \<noteq> []"
    and len: "2 \<le> length r" and c: "cell r 1 = normalizeMobileNumber v"
  shows "findStudentByMobile (rows @ [r]) (normalizeMobileNumber v)
           = Some (mapRowToStudent r (length rows + 2))"
proof -
  let ?n = "normalizeMobileNumber v"
  have d: "filter isDigit ?n = ?n" by (simp add: normalizeMobileNumber_def)
  from ne len c have "rowMatches ?n r" by (rule rowMatches_written)
  from findIndex_append_new [OF findStudentByMobile_NoneD [OF fresh] this]
  show ?thesis by (simp add: findStudentByMobile_eq d)
qed

text \<open>The append path: all four lookups find nothing.\<close>

lemma post_student_append:
  assumes name: "Name req = Some (JStr name)" "name \<noteq> []"
    and district: "District req = Some (JStr district)" "district \<noteq> []"
    and state: "State req = Some (JStr state)" "state \<noteq> []"
    and paid: "Paid req \<noteq> None"
    and fee: "feeProvided (FeeAmount req)"
    and ne: "normalizeMobileNumber (MobileNo req) \<noteq> []"
    and f1: "findStudentByMobile rows1 (normalizeMobileNumber (MobileNo req)) = None"
    and f2: "findStudentByMobile rows2 (normalizeMobileNumber (MobileNo req)) = None"
    and f3: "findStudentByMobile rows3 (normalizeMobileNumber (MobileNo req)) = None"
    and f4: "findStudentByMobile rows4 (normalizeMobileNumber (MobileNo req)) = None"
  shows "post_student t1 t2 rows1 rows2 rows3 rows4 req =
     (Response 201 (StudentCreated
        [''Name'' \<mapsto> JStr (trim name),
         ''MobileNo'' \<mapsto> JStr (normalizeMobileNumber (MobileNo req)),
         ''District'' \<mapsto> JStr (trim district),
         ''State'' \<mapsto> JStr (trim state),
         ''Paid'' \<mapsto> JStr (normalizeYesNo (Paid req)),
         ''FeeAmount'' \<mapsto> JStr (trim (jsString (the (FeeAmount req)))),
         ''Attempted'' \<mapsto> JStr ''Yes'',
         ''RetakeAllowed'' \<mapsto> JStr ''No'',
         ''LastApprovedAt'' \<mapsto> JStr (getCurrentISTTimestamp t1),
         ''_columnJ'' \<mapsto> JStr [],
         ''_columnK'' \<mapsto> JStr [],
         ''CreatedAt'' \<mapsto> JStr (getCurrentISTTimestamp t2)]),
      AppendRow
        [JStr (trim name), JStr (normalizeMobileNumber (MobileNo req)), JStr (trim district),
         JStr (trim state), JStr (normalizeYesNo (Paid req)),
         JStr (trim (jsString (the (FeeAmount req)))), JStr ''Yes'', JStr ''No'',
         JStr (getCurrentISTTimestamp t1), JStr [], JStr [],
         JStr (getCurrentISTTimestamp t2)])"
proof -
  from ne have tm: "truthy (MobileNo req)" by (rule truthy_mobile)
  have "post_student_try t1 t2 rows1 rows2 rows3 rows4 req =
     Inr (Response 201 (StudentCreated
        [''Name'' \<mapsto> JStr (trim name),
         ''MobileNo'' \<mapsto> JStr (normalizeMobileNumber (MobileNo req)),
         ''District'' \<mapsto> JStr (trim district),
         ''State'' \<mapsto> JStr (trim state),
         ''Paid'' \<mapsto> JStr (normalizeYesNo (Paid req)),
         ''FeeAmount'' \<mapsto> JStr (trim (jsString (the (FeeAmount req)))),
         ''Attempted'' \<mapsto> JStr ''Yes'',
         ''RetakeAllowed'' \<mapsto> JStr ''No'',
         ''LastApprovedAt'' \<mapsto> JStr (getCurrentISTTimestamp t1),
         ''_columnJ'' \<mapsto> JStr [],
         ''_columnK'' \<mapsto> JStr [],
         ''CreatedAt'' \<mapsto> JStr (getCurrentISTTimestamp t2)]),
      AppendRow
        [JStr (trim name), JStr (normalizeMobileNumber (MobileNo req)), JStr (trim district),
         JStr (trim state), JStr (normalizeYesNo (Paid req)),
         JStr (trim (jsString (the (FeeAmount req)))), JStr ''Yes'', JStr ''No'',
         JStr (getCurrentISTTimestamp t1), JStr [], JStr [],
         JStr (getCurrentISTTimestamp t2)])"
    using ne name(1) district(1) state(1)
    by (simp add: post_student_try_def f1 f2 f3 f4 Let_def buildRowFromStudent_eq
        namedCell_JStr trim_idem trim_normalizeYesNo trim_normalizeMobileNumber
        trim_getCurrentISTTimestamp)
  then show ?thesis
    using name district state paid fee tm by (simp add: post_student_def)
qed

lemma rowMatches_empty: "\<not> rowMatches [] r"
  by (simp add: rowMatches_def Let_def)

lemma findStudentByMobile_no_digits:
  "filter isDigit m = [] \<Longrightarrow> findStudentByMobile rows m = None"
  by (simp add: findStudentByMobile_eq findIndex_None rowMatches_empty)

section \<open>Rows by the number they hold\<close>

lemma storedNumber_short: "length r < 2 \<Longrightarrow> storedNumber r = []"
  by (simp add: storedNumber_def cell_def normalizeMobileNumber_JStr)

lemma rowMatches_storedNumber: "n \<noteq> [] \<Longrightarrow> rowMatches n r = (storedNumber r = n)"
  by (auto simp: rowMatches_def storedNumber_def Let_def cell_def normalizeMobileNumber_JStr)

lemma findIndex_first:
  "i < length xs \<Longrightarrow> P (xs ! i) \<Longrightarrow> \<forall>x\<in>set (take i xs). \<not> P x \<Longrightarrow> findIndex P xs = Some i"
proof (induction xs arbitrary: i)
  case Nil
  then show ?case by simp
next
  case (Cons x xs)
  show ?case
  proof (cases i)
    case 0
    with Cons.prems show ?thesis by simp
  next
    case (Suc k)
    with Cons.prems have "k < length xs" "P (xs ! k)" "\<forall>x\<in>set (take k xs). \<not> P x" "\<not> P x"
      by simp_all
    with Cons.IH [of k] Suc show ?thesis by simp
  qed
qed

lemma findIndex_storedNumber:
  assumes "n \<noteq> []" "i < length rows" "storedNumber (rows ! i) = n"
    "n \<notin> set (map storedNumber (take i rows))"
  shows "findIndex (rowMatches n) rows = Some i"
proof (rule findIndex_first)
  show "i < length rows" by fact
  show "rowMatches n (rows ! i)" using assms(1,3) by (simp add: rowMatches_storedNumber)
  show "\<forall>x\<in>set (take i rows). \<not> rowMatches n x"
    using assms(1,4) by (auto simp: rowMatches_storedNumber)
qed

lemma findIndex_fresh:
  assumes "n \<notin> set (map storedNumber rows)"
  shows "findIndex (rowMatches n) rows = None"
proof (cases "n = []")
  case True
  then show ?thesis by (simp add: findIndex_None rowMatches_empty)
next
  case False
  with assms show ?thesis by (auto simp: findIndex_None rowMatches_storedNumber)
qed

lemma findStudentByMobile_fresh:
  assumes "normalizeMobileNumber v \<notin> set (map storedNumber rows)"
  shows "findStudentByMobile rows (normalizeMobileNumber v) = None"
proof -
  have d: "filter isDigit (normalizeMobileNumber v) = normalizeMobileNumber v"
    by (simp add: normalizeMobileNumber_def)
  show ?thesis by (simp add: findStudentByMobile_eq d findIndex_fresh [OF assms])
qed

lemma post_student_no_digits:
  assumes "normalizeMobileNumber (MobileNo req) = []"
  shows "\<exists>e. post_student t1 t2 rows1 rows2 rows3 rows4 req = (Response 400 (ErrorBody e), NoWrite)"
  using assms by (simp add: post_student_def post_student_try_def)

lemma updateExisting_write:
  assumes "updateExisting req n paid e = Inr (res, w)"
  shows "\<exists>vals. w = UpdateRow (rowNumberOf e) vals"
  using assms
  by (auto simp: updateExisting_def buildRowFromStudent_eq Let_def split: option.splits if_splits)

lemma post_student_AppendRowD:
  assumes "snd (post_student t1 t2 rows1 rows2 rows3 rows4 req) = AppendRow vals"
  shows "findStudentByMobile rows1 (normalizeMobileNumber (MobileNo req)) = None
       \<and> findStudentByMobile rows2 (normalizeMobileNumber (MobileNo req)) = None
       \<and> findStudentByMobile rows3 (normalizeMobileNumber (MobileNo req)) = None
       \<and> findStudentByMobile rows4 (normalizeMobileNumber (MobileNo req)) = None"
proof -
  let ?n = "normalizeMobileNumber (MobileNo req)"
  let ?p = "normalizeYesNo (Paid req)"
  obtain res where p: "post_student t1 t2 rows1 rows2 rows3 rows4 req = (res, AppendRow vals)"
    using assms by (cases "post_student t1 t2 rows1 rows2 rows3 rows4 req") simp
  then have t: "post_student_try t1 t2 rows1 rows2 rows3 rows4 req = Inr (res, AppendRow vals)"
    by (auto simp: post_student_def split: if_splits sum.splits)
  have ne: "?n \<noteq> []"
    using t by (auto simp: post_student_try_def)
  have upd: False if "updateExisting req ?n ?p e = Inr (res, AppendRow vals)" for e
    using updateExisting_write [OF that] by simp
  have 1: "findStudentByMobile rows1 ?n = None"
  proof (cases "findStudentByMobile rows1 ?n")
    case (Some e)
    with t ne have "updateExisting req ?n ?p e = Inr (res, AppendRow vals)"
      by (simp add: post_student_try_def Let_def)
    then show ?thesis by (rule upd [THEN FalseE])
  qed simp
  have 2: "findStudentByMobile rows2 ?n = None"
  proof (cases "findStudentByMobile rows2 ?n")
    case (Some e)
    with t ne 1 have "updateExisting req ?n ?p e = Inr (res, AppendRow vals)"
      by (simp add: post_student_try_def Let_def)
    then show ?thesis by (rule upd [THEN FalseE])
  qed simp
  from t ne 1 2 obtain name district state where
    s: "trimMethod (Name req) = Some name" "trimMethod (District req) = Some district"
      "trimMethod (State req) = Some state"
    by (auto simp: post_student_try_def Let_def split: option.splits)
  have 3: "findStudentByMobile rows3 ?n = None"
  proof (cases "findStudentByMobile rows3 ?n")
    case (Some e)
    with t ne 1 2 s have "updateExisting req ?n ?p e = Inr (res, AppendRow vals)"
      by (simp add: post_student_try_def Let_def)
    then show ?thesis by (rule upd [THEN FalseE])
  qed simp
  have 4: "findStudentByMobile rows4 ?n = None"
  proof (cases "findStudentByMobile rows4 ?n")
    case (Some e)
    with t ne 1 2 3 s show ?thesis
      by (simp add: post_student_try_def Let_def)
  qed simp
  from 1 2 3 4 show ?thesis by simp
qed

section \<open>Yes/No fields of the rows written\<close>

lemma normalizeYesNo_Yes_iff:
  "normalizeYesNo v = ''Yes''
     \<longleftrightarrow> v = Some (JBool True) \<or> (\<exists>s. v = Some (JStr s) \<and> toLowerCase (trim s) = ''yes'')"
  by (cases v rule: normalizeYesNo.cases) auto

lemma normalizeYesNo_examples:
  "normalizeYesNo (Some (JStr ''true'')) = ''No''"
  "normalizeYesNo (Some (JStr ''TRUE'')) = ''No''"
  "normalizeYesNo (Some (JStr ''1'')) = ''No''"
  by code_simp+

lemma post_student_existing_after:
  assumes name: "Name req = Some (JStr name)" "name \<noteq> []"
    and district: "District req = Some (JStr district)" "district \<noteq> []"
    and state: "State req = Some (JStr state)" "state \<noteq> []"
    and paid: "Paid req \<noteq> None"
    and fee: "feeProvided (FeeAmount req)"
    and found: "findIndex (rowMatches (normalizeMobileNumber (MobileNo req))) rows = Some i"
  shows "\<exists>after. findStudentByMobile (snd (post_student_seq t1 t2 rows req))
              (normalizeMobileNumber (MobileNo req)) = Some after
     \<and> after ''Paid'' = Some (JStr (normalizeYesNo (Paid req)))
     \<and> after ''Attempted'' = Some (JStr (trim (cell (rows ! i) 6)))
     \<and> after ''RetakeAllowed'' = Some (JStr (trim (cell (rows ! i) 7)))"
proof -
  let ?n = "normalizeMobileNumber (MobileNo req)"
  from findIndex_Some [OF found] have il: "i < length rows" by simp
  from post_student_existing [OF assms, of t1 t2 rows rows rows]
  obtain u fee' where p: "post_student t1 t2 rows rows rows rows req =
      (Response 200 (StudentUpdated u),
       UpdateRow (i + 2)
         [JStr (trim name), JStr ?n, JStr (trim district),
          JStr (trim state), JStr (normalizeYesNo (Paid req)), JStr fee',
          JStr (trim (cell (rows ! i) 6)), JStr (trim (cell (rows ! i) 7)),
          JStr (trim (cell (rows ! i) 8)), JStr (cell (rows ! i) 9), JStr (cell (rows ! i) 10),
          JStr (trim (cell (rows ! i) 11))])"
    by blast
  let ?new = "[trim name, ?n, trim district, trim state, normalizeYesNo (Paid req), fee',
      trim (cell (rows ! i) 6), trim (cell (rows ! i) 7), trim (cell (rows ! i) 8),
      cell (rows ! i) 9, cell (rows ! i) 10, trim (cell (rows ! i) 11)]"
  have s: "snd (post_student_seq t1 t2 rows req) = rows[i := ?new]"
    using il by (simp add: post_student_seq_def p Let_def)
  have fa: "findStudentByMobile (rows[i := ?new]) ?n = Some (mapRowToStudent ?new (i + 2))"
    by (rule findStudentByMobile_update [OF found]) (simp_all add: cell_def)
  have "mapRowToStudent ?new (i + 2) ''Paid'' = Some (JStr (normalizeYesNo (Paid req)))"
    "mapRowToStudent ?new (i + 2) ''Attempted'' = Some (JStr (trim (cell (rows ! i) 6)))"
    "mapRowToStudent ?new (i + 2) ''RetakeAllowed'' = Some (JStr (trim (cell (rows ! i) 7)))"
    by (simp_all add: mapRowToStudent_fields cell_def)
  with fa show ?thesis unfolding s by blast
qed

lemma update_yes_no_field:
  fixes updates :: student
  assumes k: "k = ''Paid'' \<or> k = ''Attempted'' \<or> k = ''RetakeAllowed''"
    and old: "s k = Some (JStr old)"
  shows "namedCell (mergeUpdates s
      (normalizeField ''RetakeAllowed''
         (normalizeField ''Attempted'' (normalizeField ''Paid'' updates)))
      n refresh istTime k)
    = (case updates k of
         Some x \<Rightarrow> JStr (normalizeYesNo (Some x))
       | None \<Rightarrow> JStr (trim old))"
proof -
  from k consider "k = ''Paid''" | "k = ''Attempted''" | "k = ''RetakeAllowed''" by blast
  then show ?thesis
  proof cases
    case 1
    with old have "s ''Paid'' = Some (JStr old)" by simp
    then show ?thesis unfolding 1
      by (simp add: mergeUpdates_plain normalizedUpdates_fields namedCell_JStr
          trim_normalizeYesNo split: option.splits)
  next
    case 2
    with old have "s ''Attempted'' = Some (JStr old)" by simp
    then show ?thesis unfolding 2
      by (simp add: mergeUpdates_plain normalizedUpdates_fields namedCell_JStr
          trim_normalizeYesNo split: option.splits)
  next
    case 3
    with old have "s ''RetakeAllowed'' = Some (JStr old)" by simp
    then show ?thesis unfolding 3
      by (simp add: mergeUpdates_plain normalizedUpdates_fields namedCell_JStr
          trim_normalizeYesNo split: option.splits)
  qed
qed

lemma created_yes_no:
  assumes valid: "passesChecks req \<and> stringFields req"
    and fresh: "findStudentByMobile rows (normalizeMobileNumber (MobileNo req)) = None"
  shows "\<exists>newRow. snd (post_student_seq t1 t2 rows req) = rows @ [newRow]
     \<and> cell newRow 4 = normalizeYesNo (Paid req)
     \<and> cell newRow 6 = ''Yes'' \<and> cell newRow 7 = ''No''"
proof -
  from valid obtain name district state where v:
    "Name req = Some (JStr name)" "name \<noteq> []"
    "District req = Some (JStr district)" "district \<noteq> []"
    "State req = Some (JStr state)" "state \<noteq> []"
    "Paid req \<noteq> None" "feeProvided (FeeAmount req)"
    "normalizeMobileNumber (MobileNo req) \<noteq> []"
    by (rule acceptedRequestD)
  show ?thesis
    by (simp add: post_student_seq_def post_student_append [OF v fresh fresh fresh fresh]
        cell_def)
qed

lemma upserted_yes_no:
  assumes valid: "passesChecks req \<and> stringFields req"
    and found: "findStudentByMobile rows (normalizeMobileNumber (MobileNo req)) = Some existing"
  shows "\<exists>after a r.
       findStudentByMobile (snd (post_student_seq t1 t2 rows req))
         (normalizeMobileNumber (MobileNo req)) = Some after
     \<and> after ''Paid'' = Some (JStr (normalizeYesNo (Paid req)))
     \<and> existing ''Attempted'' = Some (JStr a) \<and> after ''Attempted'' = Some (JStr (trim a))
     \<and> existing ''RetakeAllowed'' = Some (JStr r)
     \<and> after ''RetakeAllowed'' = Some (JStr (trim r))"
proof -
  from valid obtain name district state where v:
    "Name req = Some (JStr name)" "name \<noteq> []"
    "District req = Some (JStr district)" "district \<noteq> []"
    "State req = Some (JStr state)" "state \<noteq> []"
    "Paid req \<noteq> None" "feeProvided (FeeAmount req)"
    by (rule acceptedRequestD)
  from found obtain i where fi: "findIndex (rowMatches (normalizeMobileNumber (MobileNo req))) rows = Some i"
    and ex: "existing = mapRowToStudent (rows ! i) (i + 2)"
    by (rule findStudentByMobile_SomeD)
  from post_student_existing_after [OF v fi, of t1 t2] show ?thesis
    by (auto simp: ex mapRowToStudent_fields)
qed

lemma updated_yes_no:
  fixes updates :: student
  assumes found: "findStudentByMobile rows (normalizeMobileNumber mobileNo) = Some s"
    and accepted: "status (fst (post_student_update dateParse now istTime rows mobileNo
                      (Some updates))) = 200"
  shows "\<exists>after.
       findStudentByMobile
         (snd (post_student_update_seq dateParse now istTime rows mobileNo (Some updates)))
         (normalizeMobileNumber mobileNo) = Some after
     \<and> (\<forall>k\<in>{''Paid'', ''Attempted'', ''RetakeAllowed''}.
           case updates k of
             Some x \<Rightarrow> after k = Some (JStr (normalizeYesNo (Some x)))
           | None \<Rightarrow> (\<exists>old. s k = Some (JStr old) \<and> after k = Some (JStr (trim old))))"
proof -
  let ?retake = "normalizeYesNo (updates ''RetakeAllowed'') = ''Yes''"
  let ?refresh = "?retake \<or> normalizeYesNo (updates ''Attempted'') = ''Yes''
             \<and> normalizeYesNo (s ''Attempted'') \<noteq> ''Yes''"
  let ?nu = "normalizeField ''RetakeAllowed''
         (normalizeField ''Attempted'' (normalizeField ''Paid'' updates))"
  let ?u = "mergeUpdates s ?nu (normalizeMobileNumber mobileNo) ?refresh istTime"
  from found obtain i where "s = mapRowToStudent (rows ! i) (i + 2)"
    by (rule findStudentByMobile_SomeD)
  then obtain p a r where old: "s ''Paid'' = Some (JStr p)" "s ''Attempted'' = Some (JStr a)"
    "s ''RetakeAllowed'' = Some (JStr r)"
    by (simp add: mapRowToStudent_fields)
  have rej: "retakeRejection dateParse now ?retake s = None"
  proof (cases "retakeRejection dateParse now ?retake s")
    case None
    then show ?thesis .
  next
    case (Some h)
    have "post_student_update dateParse now istTime rows mobileNo (Some updates)
        = (Response 409 (CooldownBody h), NoWrite)"
      by (simp only: post_student_update_found [OF found] Some option.case)
    with accepted show ?thesis by simp
  qed
  from post_student_update_accepted
    [where updates = updates and istTime = istTime and dateParse = dateParse and now = now,
     OF found rej]
  obtain rows' after where seq:
    "post_student_update_seq dateParse now istTime rows mobileNo (Some updates)
       = (Response 200 (StudentBody ?u), rows')"
    and fa: "findStudentByMobile rows' (normalizeMobileNumber mobileNo) = Some after"
    and cells: "after ''Paid'' = Some (namedCell (?u ''Paid''))"
      "after ''Attempted'' = Some (namedCell (?u ''Attempted''))"
      "after ''RetakeAllowed'' = Some (namedCell (?u ''RetakeAllowed''))"
    by blast
  have "case updates ''Paid'' of
          Some x \<Rightarrow> after ''Paid'' = Some (JStr (normalizeYesNo (Some x)))
        | None \<Rightarrow> (\<exists>old. s ''Paid'' = Some (JStr old) \<and> after ''Paid'' = Some (JStr (trim old)))"
    by (simp add: cells(1) update_yes_no_field [where k = "''Paid''" and s = s, OF _ old(1)]
        old(1) split: option.splits)
  moreover have "case updates ''Attempted'' of
          Some x \<Rightarrow> after ''Attempted'' = Some (JStr (normalizeYesNo (Some x)))
        | None \<Rightarrow> (\<exists>old. s ''Attempted'' = Some (JStr old)
                       \<and> after ''Attempted'' = Some (JStr (trim old)))"
    by (simp add: cells(2) update_yes_no_field [where k = "''Attempted''" and s = s, OF _ old(2)]
        old(2) split: option.splits)
  moreover have "case updates ''RetakeAllowed'' of
          Some x \<Rightarrow> after ''RetakeAllowed'' = Some (JStr (normalizeYesNo (Some x)))
        | None \<Rightarrow> (\<exists>old. s ''RetakeAllowed'' = Some (JStr old)
                       \<and> after ''RetakeAllowed'' = Some (JStr (trim old)))"
    by (simp add: cells(3) update_yes_no_field [where k = "''RetakeAllowed''" and s = s, OF _ old(3)]
        old(3) split: option.splits)
  ultimately show ?thesis
    using fa by (simp add: seq)
qed

section \<open>The timestamps an update writes\<close>

text \<open>
  A call of \<^verbatim>\<open>POST /student/update\<close> on a record that exists is refused with 409 and
  writes nothing, or is answered 200. Then the record returned has the \<^verbatim>\<open>CreatedAt\<close>
  read before the update, whatever the updates hold, and the row written has that text
  without the white space at its ends.
\<close>

lemma update_CreatedAt_written:
  assumes found: "findStudentByMobile rows (normalizeMobileNumber mobileNo) = Some s"
  shows "\<exists>res rows' c.
       post_student_update_seq dateParse now istTime rows mobileNo (Some updates) = (res, rows')
     \<and> s ''CreatedAt'' = Some (JStr c)
     \<and> length rows' = length rows
     \<and> ((\<exists>remainingHours. res = Response 409 (CooldownBody remainingHours) \<and> rows' = rows)
        \<or> (\<exists>u after. res = Response 200 (StudentBody u)
              \<and> u ''CreatedAt'' = Some (JStr c)
              \<and> findStudentByMobile rows' (normalizeMobileNumber mobileNo) = Some after
              \<and> rowNumberOf after = rowNumberOf s
              \<and> after ''CreatedAt'' = Some (JStr (trim c))))"
proof -
  let ?retake = "normalizeYesNo (updates ''RetakeAllowed'') = ''Yes''"
  let ?u = "mergeUpdates s
      (normalizeField ''RetakeAllowed''
         (normalizeField ''Attempted'' (normalizeField ''Paid'' updates)))
      (normalizeMobileNumber mobileNo)
      (?retake \<or> normalizeYesNo (updates ''Attempted'') = ''Yes''
             \<and> normalizeYesNo (s ''Attempted'') \<noteq> ''Yes'')
      istTime"
  from found obtain i where "s = mapRowToStudent (rows ! i) (i + 2)"
    by (rule findStudentByMobile_SomeD)
  then obtain c where c: "s ''CreatedAt'' = Some (JStr c)"
    by (simp add: mapRowToStudent_fields)
  then have uc: "?u ''CreatedAt'' = Some (JStr c)"
    by (simp add: mergeUpdates_CreatedAt)
  show ?thesis
  proof (cases "retakeRejection dateParse now ?retake s")
    case (Some h)
    have "post_student_update dateParse now istTime rows mobileNo (Some updates)
        = (Response 409 (CooldownBody h), NoWrite)"
      by (simp only: post_student_update_found [OF found] Some option.case)
    then have "post_student_update_seq dateParse now istTime rows mobileNo (Some updates)
        = (Response 409 (CooldownBody h), rows)"
      by (simp add: post_student_update_seq_def)
    with c show ?thesis by simp
  next
    case None
    from post_student_update_accepted
      [where updates = updates and istTime = istTime and dateParse = dateParse and now = now,
       OF found None]
    obtain rows' after where
      "post_student_update_seq dateParse now istTime rows mobileNo (Some updates)
         = (Response 200 (StudentBody ?u), rows')"
      "length rows' = length rows"
      "findStudentByMobile rows' (normalizeMobileNumber mobileNo) = Some after"
      "rowNumberOf after = rowNumberOf s"
      "after ''CreatedAt'' = Some (namedCell (?u ''CreatedAt''))"
      by blast
    with c uc show ?thesis by (simp add: namedCell_JStr)
  qed
qed

text \<open>
  In a call answered 200, \<^verbatim>\<open>LastApprovedAt\<close> is the current timestamp when the update
  grants a retake or approves a new attempt. Otherwise it is the value of the updates
  when they carry one, and the value read before the update when they do not; the row
  written has that text without the white space at its ends.
\<close>

lemma update_LastApprovedAt_written:
  assumes found: "findStudentByMobile rows (normalizeMobileNumber mobileNo) = Some s"
    and accepted: "status (fst (post_student_update dateParse now istTime rows mobileNo
                      (Some updates))) = 200"
  shows "\<exists>u rows' after old.
       post_student_update_seq dateParse now istTime rows mobileNo (Some updates)
         = (Response 200 (StudentBody u), rows')
     \<and> findStudentByMobile rows' (normalizeMobileNumber mobileNo) = Some after
     \<and> s ''LastApprovedAt'' = Some (JStr old)
     \<and> (if normalizeYesNo (updates ''RetakeAllowed'') = ''Yes''
            \<or> normalizeYesNo (updates ''Attempted'') = ''Yes''
               \<and> normalizeYesNo (s ''Attempted'') \<noteq> ''Yes''
         then u ''LastApprovedAt'' = Some (JStr (getCurrentISTTimestamp istTime))
            \<and> after ''LastApprovedAt'' = Some (JStr (getCurrentISTTimestamp istTime))
         else (case updates ''LastApprovedAt'' of
                 None \<Rightarrow> u ''LastApprovedAt'' = Some (JStr old)
                         \<and> after ''LastApprovedAt'' = Some (JStr (trim old))
               | Some v \<Rightarrow> u ''LastApprovedAt'' = Some v
                           \<and> after ''LastApprovedAt'' = Some (namedCell (Some v))))"
proof -
  let ?retake = "normalizeYesNo (updates ''RetakeAllowed'') = ''Yes''"
  let ?refresh = "?retake \<or> normalizeYesNo (updates ''Attempted'') = ''Yes''
             \<and> normalizeYesNo (s ''Attempted'') \<noteq> ''Yes''"
  let ?nu = "normalizeField ''RetakeAllowed''
         (normalizeField ''Attempted'' (normalizeField ''Paid'' updates))"
  let ?u = "mergeUpdates s ?nu (normalizeMobileNumber mobileNo) ?refresh istTime"
  from found obtain i where "s = mapRowToStudent (rows ! i) (i + 2)"
    by (rule findStudentByMobile_SomeD)
  then obtain old where old: "s ''LastApprovedAt'' = Some (JStr old)"
    by (simp add: mapRowToStudent_fields)
  have rej: "retakeRejection dateParse now ?retake s = None"
  proof (cases "retakeRejection dateParse now ?retake s")
    case None
    then show ?thesis .
  next
    case (Some h)
    have "post_student_update dateParse now istTime rows mobileNo (Some updates)
        = (Response 409 (CooldownBody h), NoWrite)"
      by (simp only: post_student_update_found [OF found] Some option.case)
    with accepted show ?thesis by simp
  qed
  have nl: "?nu ''LastApprovedAt'' = updates ''LastApprovedAt''"
    by (simp add: normalizedUpdates_fields)
  have ul: "?u ''LastApprovedAt'' =
      (if ?refresh then Some (JStr (getCurrentISTTimestamp istTime))
       else (case updates ''LastApprovedAt'' of Some v \<Rightarrow> Some v | None \<Rightarrow> Some (JStr old)))"
    by (simp only: mergeUpdates_LastApprovedAt nl old option.case)
  from post_student_update_accepted
    [where updates = updates and istTime = istTime and dateParse = dateParse and now = now,
     OF found rej]
  obtain rows' after where
    "post_student_update_seq dateParse now istTime rows mobileNo (Some updates)
       = (Response 200 (StudentBody ?u), rows')"
    "findStudentByMobile rows' (normalizeMobileNumber mobileNo) = Some after"
    "after ''LastApprovedAt'' = Some (namedCell (?u ''LastApprovedAt''))"
    by blast
  with old ul show ?thesis
    by (auto simp: namedCell_JStr trim_getCurrentISTTimestamp split: option.splits)
qed

section \<open>Facts about the example data\<close>

lemma exampleRequest_valid: "passesChecks exampleRequest \<and> stringFields exampleRequest"
  by (simp add: passesChecks_def stringFields_def exampleRequest_def feeProvided_def
      normalizeMobileNumber_def isDigit_def)

lemma exampleRequest_number: "normalizeMobileNumber (MobileNo exampleRequest) = ''9876543210''"
  by (simp add: exampleRequest_def normalizeMobileNumber_def isDigit_def)

lemma exampleSheet_found:
  "findStudentByMobile exampleSheet ''9876543210'' = Some (mapRowToStudent (exampleSheet ! 0) 2)"
  by (simp add: findStudentByMobile_eq exampleSheet_def rowMatches_def cell_def
      normalizeMobileNumber_def isDigit_def numeral_2_eq_2)

lemma exampleDate_timestamp:
  "getCurrentISTTimestamp exampleDate = ''2024-01-05T09:03:07.042+05:30''"
  by (simp add: getCurrentISTTimestamp_def exampleDate_def showInt_def showNat.simps
      digitChar_def padStart_def)

lemma exampleNumber: "normalizeMobileNumber (Some (JStr ''9876543210'')) = ''9876543210''"
  by (simp add: normalizeMobileNumber_def isDigit_def)

lemma exampleSheet_lookup:
  "findStudentByMobile exampleSheet (normalizeMobileNumber (Some (JStr ''9876543210'')))
     = Some (mapRowToStudent (exampleSheet ! 0) 2)"
  by (simp only: exampleNumber exampleSheet_found)

lemma retakeUpdates_retake: "normalizeYesNo (retakeUpdates ''RetakeAllowed'') = ''Yes''"
  by (simp add: retakeUpdates_def toLowerCase_def lowerChar_def upperChars_def lowerChars_def
      trim_def isSpace_def)

lemma exampleSheet_parsed:
  "parseIsoDate exampleParse (mapRowToStudent (exampleSheet ! 0) 2 ''LastApprovedAt'')
     = Some 1704083400000"
  by (simp add: mapRowToStudent_fields exampleSheet_def cell_def parseIsoDate_def
      exampleParse_def)

lemma exampleSheet_elapsed:
  "parseIsoDate exampleParse (mapRowToStudent (exampleSheet ! 0) 2 ''LastApprovedAt'') = None
   \<or> (\<exists>t. parseIsoDate exampleParse (mapRowToStudent (exampleSheet ! 0) 2 ''LastApprovedAt'')
              = Some t \<and> TWELVE_HOURS_MS \<le> 1704130200000 - t)"
  by (simp add: exampleSheet_parsed TWELVE_HOURS_MS_def)

lemma retake_accepted_status:
  "status (fst (post_student_update exampleParse 1704130200000 exampleDate exampleSheet
      (Some (JStr ''9876543210'')) (Some retakeUpdates))) = 200"
  by code_simp

lemma exampleRequest_fresh:
  "findStudentByMobile [] (normalizeMobileNumber (MobileNo exampleRequest)) = None"
  by (simp add: findStudentByMobile_def)

lemma paid_accepted_status:
  "status (fst (post_student_update exampleParse 1704130200000 exampleDate exampleSheet
      (Some (JStr ''9876543210'')) (Some paidUpdates))) = 200"
  by code_simp

lemma twoStudentSheet_facts:
  "1 < length twoStudentSheet"
  "storedNumber (twoStudentSheet ! 1) = normalizeMobileNumber (MobileNo exampleRequest)"
  "normalizeMobileNumber (MobileNo exampleRequest)
     \<notin> set (map storedNumber (take 1 twoStudentSheet))"
  "length (filter (\<lambda>r. storedNumber r = ''9876543210'') twoStudentSheet) = 1"
  by (simp_all add: twoStudentSheet_def storedNumber_def cell_def exampleRequest_def
      normalizeMobileNumber_def isDigit_def)

lemma otherSheet_fresh:
  "normalizeMobileNumber (MobileNo exampleRequest) \<notin> set (map storedNumber otherSheet)"
  by (simp add: otherSheet_def storedNumber_def cell_def exampleRequest_def
      normalizeMobileNumber_def isDigit_def)

lemma otherSheet_length: "length otherSheet + 2 = 3"
  by (simp add: otherSheet_def)

lemma otherSheet_lookup:
  "findStudentByMobile otherSheet (normalizeMobileNumber (MobileNo exampleRequest)) = None"
  using otherSheet_fresh by (rule findStudentByMobile_fresh)

lemma twoStudentSheet_lookup:
  "findStudentByMobile twoStudentSheet (normalizeMobileNumber (MobileNo exampleRequest))
     = Some (mapRowToStudent (twoStudentSheet ! 1) 3)"
proof -
  have n: "normalizeMobileNumber (MobileNo exampleRequest) \<noteq> []"
    by (simp add: exampleRequest_number)
  have d: "filter isDigit (normalizeMobileNumber (MobileNo exampleRequest))
      = normalizeMobileNumber (MobileNo exampleRequest)"
    by (simp add: normalizeMobileNumber_def)
  from findIndex_storedNumber [OF n twoStudentSheet_facts(1,2,3)]
  show ?thesis by (simp add: findStudentByMobile_eq d eval_nat_numeral)
qed

section \<open>C1: upsert of a number that is already stored\<close>

text \<open>
  C1, as the code has it. Let row \<open>i\<close> of the sheet be the first row that holds the
  normalised \<^verbatim>\<open>MobileNo\<close> of a \<^verbatim>\<open>POST /student\<close> call. Whatever the payload, the
  call appends nothing: the sheet keeps its length and its number of rows for that
  number (one row stays one row), and the response is never 201. When the payload passes
  the handler's three 400 checks and its \<^verbatim>\<open>Name\<close>, \<^verbatim>\<open>District\<close> and \<^verbatim>\<open>State\<close> are
  strings, the response is 200 with \<^verbatim>\<open>updated: true\<close>, the one write is an update of
  sheet row \<open>i + 2\<close>, the record's own row, every other row is untouched, the rewritten
  row holds the same number, and the \<^verbatim>\<open>CreatedAt\<close> of the response is the one read
  before the call.
\<close>

theorem post_student_existing_updates_in_place:
  assumes idx: "i < length rows"
    and stored: "storedNumber (rows ! i) = normalizeMobileNumber (MobileNo req)"
    and first: "normalizeMobileNumber (MobileNo req) \<notin> set (map storedNumber (take i rows))"
  shows "(let (res, rows') = post_student_seq t1 t2 rows req;
              n = normalizeMobileNumber (MobileNo req)
          in length rows' = length rows
           \<and> length (filter (\<lambda>r. storedNumber r = n) rows')
               = length (filter (\<lambda>r. storedNumber r = n) rows)
           \<and> status res \<noteq> 201
           \<and> (passesChecks req \<and> stringFields req \<longrightarrow>
                (\<exists>u vals.
                    post_student t1 t2 rows rows rows rows req =
                      (Response 200 (StudentUpdated u), UpdateRow (i + 2) vals)
                  \<and> res = Response 200 (StudentUpdated u)
                  \<and> rows' = rows[i := map jsString vals]
                  \<and> storedNumber (rows' ! i) = n
                  \<and> u ''CreatedAt'' = Some (JStr (cell (rows ! i) 11)))))"
proof -
  let ?n = "normalizeMobileNumber (MobileNo req)"
  obtain res w where pw: "post_student t1 t2 rows rows rows rows req = (res, w)"
    by (cases "post_student t1 t2 rows rows rows rows req")
  then have seq: "post_student_seq t1 t2 rows req = (res, applyWrite w rows)"
    by (simp add: post_student_seq_def)
  show ?thesis
  proof (cases "?n = []")
    case True
    from post_student_no_digits [OF True, of t1 t2 rows rows rows rows] pw
    obtain e where "res = Response 400 (ErrorBody e)" "w = NoWrite"
      by auto
    moreover from True have "\<not> passesChecks req"
      by (simp add: passesChecks_def)
    ultimately show ?thesis by (simp add: seq Let_def)
  next
    case ne: False
    have fi: "findIndex (rowMatches ?n) rows = Some i"
      using ne idx stored first by (rule findIndex_storedNumber)
    have rm: "rowMatches ?n = (\<lambda>r. storedNumber r = ?n)"
      by (rule ext) (simp add: rowMatches_storedNumber [OF ne])
    from findIndex_Some [OF fi] have m: "rowMatches ?n (rows ! i)" by simp
    have A: "length (applyWrite w rows) = length rows
        \<and> length (filter (rowMatches ?n) (applyWrite w rows))
            = length (filter (rowMatches ?n) rows)
        \<and> status res \<noteq> 201"
    proof -
      from post_student_found_cases [OF fi, of t1 t2 rows rows rows]
      consider (err) st e where "res = Response st (ErrorBody e)" "w = NoWrite" "st \<noteq> 201"
        | (upd) u vals where "res = Response 200 (StudentUpdated u)" "w = UpdateRow (i + 2) vals"
            "length vals = 12" "vals ! 1 = JStr ?n"
        using pw by auto
      then show ?thesis
      proof cases
        case err
        then show ?thesis by simp
      next
        case upd
        have "rowMatches ?n (map jsString vals)"
          using ne upd(3,4) by (intro rowMatches_written) (simp_all add: cell_def)
        moreover have "applyWrite w rows = rows[i := map jsString vals]"
          using idx by (simp only: upd(2) applyWrite_UpdateRow_in_range)
        ultimately show ?thesis
          using upd(1) idx m by (simp add: filter_update_same)
      qed
    qed
    have B: "\<exists>u vals.
          post_student t1 t2 rows rows rows rows req =
            (Response 200 (StudentUpdated u), UpdateRow (i + 2) vals)
        \<and> res = Response 200 (StudentUpdated u)
        \<and> applyWrite w rows = rows[i := map jsString vals]
        \<and> storedNumber (applyWrite w rows ! i) = ?n
        \<and> u ''CreatedAt'' = Some (JStr (cell (rows ! i) 11))"
      if valid: "passesChecks req \<and> stringFields req"
    proof -
      from valid obtain name district state where v:
        "Name req = Some (JStr name)" "name \<noteq> []"
        "District req = Some (JStr district)" "district \<noteq> []"
        "State req = Some (JStr state)" "state \<noteq> []"
        "Paid req \<noteq> None" "feeProvided (FeeAmount req)"
        by (rule acceptedRequestD)
      from post_student_existing [OF v fi, of t1 t2 rows rows rows]
      obtain u fee' where p: "post_student t1 t2 rows rows rows rows req =
          (Response 200 (StudentUpdated u),
           UpdateRow (i + 2)
             [JStr (trim name), JStr ?n, JStr (trim district),
              JStr (trim state), JStr (normalizeYesNo (Paid req)), JStr fee',
              JStr (trim (cell (rows ! i) 6)), JStr (trim (cell (rows ! i) 7)),
              JStr (trim (cell (rows ! i) 8)), JStr (cell (rows ! i) 9),
              JStr (cell (rows ! i) 10), JStr (trim (cell (rows ! i) 11))])"
        and uc: "u ''CreatedAt'' = Some (JStr (cell (rows ! i) 11))"
        by blast
      let ?vals = "[JStr (trim name), JStr ?n, JStr (trim district),
              JStr (trim state), JStr (normalizeYesNo (Paid req)), JStr fee',
              JStr (trim (cell (rows ! i) 6)), JStr (trim (cell (rows ! i) 7)),
              JStr (trim (cell (rows ! i) 8)), JStr (cell (rows ! i) 9),
              JStr (cell (rows ! i) 10), JStr (trim (cell (rows ! i) 11))]"
      from p pw have r: "res = Response 200 (StudentUpdated u)"
        and w: "w = UpdateRow (i + 2) ?vals"
        by simp_all
      have aw: "applyWrite w rows = rows[i := map jsString ?vals]"
        using idx by (simp only: w applyWrite_UpdateRow_in_range)
      have "storedNumber (map jsString ?vals) = ?n"
        by (simp add: storedNumber_def cell_def normalizeMobileNumber_idem)
      then have sn: "storedNumber (applyWrite w rows ! i) = ?n"
        using idx by (simp only: aw nth_list_update_eq)
      from p r aw sn uc show ?thesis by blast
    qed
    from A B show ?thesis by (simp add: seq Let_def rm)
  qed
qed

theorem post_student_existing_updates_in_place_witness:
  "1 < length twoStudentSheet
   \<and> storedNumber (twoStudentSheet ! 1) = normalizeMobileNumber (MobileNo exampleRequest)
   \<and> normalizeMobileNumber (MobileNo exampleRequest)
        \<notin> set (map storedNumber (take 1 twoStudentSheet))
   \<and> passesChecks exampleRequest \<and> stringFields exampleRequest
   \<and> status (fst (post_student_seq exampleDate exampleDate twoStudentSheet exampleRequest)) = 200
   \<and> length (snd (post_student_seq exampleDate exampleDate twoStudentSheet exampleRequest)) = 2
   \<and> snd (post_student_seq exampleDate exampleDate twoStudentSheet exampleRequest) ! 0
        = twoStudentSheet ! 0
   \<and> storedNumber (snd (post_student_seq exampleDate exampleDate twoStudentSheet exampleRequest) ! 1)
        = ''9876543210''
   \<and> length (filter (\<lambda>r. storedNumber r = ''9876543210'')
        (snd (post_student_seq exampleDate exampleDate twoStudentSheet exampleRequest))) = 1"
proof -
  note h = twoStudentSheet_facts
  have l: "length twoStudentSheet = 2" by (simp add: twoStudentSheet_def)
  obtain res rows' where s:
    "post_student_seq exampleDate exampleDate twoStudentSheet exampleRequest = (res, rows')"
    by (cases "post_student_seq exampleDate exampleDate twoStudentSheet exampleRequest")
  from post_student_existing_updates_in_place [OF h(1,2,3), of exampleDate exampleDate]
    exampleRequest_valid
  have "length rows' = 2
      \<and> length (filter (\<lambda>r. storedNumber r = ''9876543210'') rows') = 1
      \<and> (\<exists>u vals. res = Response 200 (StudentUpdated u)
            \<and> rows' = twoStudentSheet[1 := map jsString vals]
            \<and> storedNumber (rows' ! 1) = ''9876543210'')"
    by (simp add: s Let_def exampleRequest_number l h(4)) blast
  then obtain u vals where "length rows' = 2"
    "length (filter (\<lambda>r. storedNumber r = ''9876543210'') rows') = 1"
    "res = Response 200 (StudentUpdated u)"
    "rows' = twoStudentSheet[1 := map jsString vals]"
    "storedNumber (rows' ! 1) = ''9876543210''"
    by blast
  then have "status res = 200" "length rows' = 2" "rows' ! 0 = twoStudentSheet ! 0"
    "storedNumber (rows' ! 1) = ''9876543210''"
    "length (filter (\<lambda>r. storedNumber r = ''9876543210'') rows') = 1"
    by simp_all
  with h(1,2,3) exampleRequest_valid show ?thesis by (simp add: s)
qed

text \<open>
  C1 as stated fails for a payload that is refused although its number is stored: one
  without \<^verbatim>\<open>FeeAmount\<close> is answered 400 by the handler's second check, and one with
  \<^verbatim>\<open>Name: 5\<close> passes the three checks and is answered 500, because a number has no
  \<^verbatim>\<open>trim\<close> method. Neither call writes the sheet.
\<close>

theorem post_student_existing_counterexample:
  "storedNumber (exampleSheet ! 0)
       = normalizeMobileNumber (MobileNo (exampleRequest\<lparr>FeeAmount := None\<rparr>))
   \<and> status (fst (post_student_seq exampleDate exampleDate exampleSheet
         (exampleRequest\<lparr>FeeAmount := None\<rparr>))) = 400
   \<and> snd (post_student_seq exampleDate exampleDate exampleSheet
         (exampleRequest\<lparr>FeeAmount := None\<rparr>)) = exampleSheet
   \<and> storedNumber (exampleSheet ! 0) = normalizeMobileNumber (MobileNo numericNameRequest)
   \<and> passesChecks numericNameRequest
   \<and> status (fst (post_student_seq exampleDate exampleDate exampleSheet numericNameRequest)) = 500
   \<and> snd (post_student_seq exampleDate exampleDate exampleSheet numericNameRequest)
       = exampleSheet"
  by code_simp

section \<open>C3: a retake inside the cooldown window\<close>

text \<open>
  C3. A \<^verbatim>\<open>POST /student/update\<close> call whose \<^verbatim>\<open>RetakeAllowed\<close> normalises to
  \<^verbatim>\<open>Yes\<close>, on a record whose \<^verbatim>\<open>LastApprovedAt\<close> parses to a time \<open>t\<close> with
  \<open>0 \<le> now - t < 12 h\<close>, is answered 409 with \<^verbatim>\<open>remainingHours\<close> the remaining
  milliseconds divided by an hour and rounded up, which lies between 1 and 12. The
  handler writes nothing, so the sheet after the call is the sheet before it.
\<close>

theorem retake_within_cooldown_rejected:
  assumes found: "findStudentByMobile rows (normalizeMobileNumber mobileNo) = Some s"
    and retake: "normalizeYesNo (updates ''RetakeAllowed'') = ''Yes''"
    and parsed: "parseIsoDate dateParse (s ''LastApprovedAt'') = Some t"
    and past: "0 \<le> now - t"
    and recent: "now - t < TWELVE_HOURS_MS"
  shows "\<exists>remainingHours.
       post_student_update dateParse now istTime rows mobileNo (Some updates)
         = (Response 409 (CooldownBody remainingHours), NoWrite)
     \<and> post_student_update_seq dateParse now istTime rows mobileNo (Some updates)
         = (Response 409 (CooldownBody remainingHours), rows)
     \<and> remainingHours = ceilDiv (TWELVE_HOURS_MS - (now - t)) (60 * 60 * 1000)
     \<and> (remainingHours - 1) * (60 * 60 * 1000) < TWELVE_HOURS_MS - (now - t)
     \<and> TWELVE_HOURS_MS - (now - t) \<le> remainingHours * (60 * 60 * 1000)
     \<and> 1 \<le> remainingHours \<and> remainingHours \<le> 12"
proof -
  let ?h = "ceilDiv (TWELVE_HOURS_MS - (now - t)) (60 * 60 * 1000)"
  have "retakeRejection dateParse now True s = Some ?h"
    using parsed recent by (rule retakeRejection_recent)
  then have rej: "retakeRejection dateParse now
      (normalizeYesNo (updates ''RetakeAllowed'') = ''Yes'') s = Some ?h"
    by (simp only: retake simp_thms)
  have p: "post_student_update dateParse now istTime rows mobileNo (Some updates)
      = (Response 409 (CooldownBody ?h), NoWrite)"
    by (simp only: post_student_update_found [OF found] rej option.case)
  have a: "0 < TWELVE_HOURS_MS - (now - t)" "TWELVE_HOURS_MS - (now - t) \<le> 43200000"
    using past recent by (simp_all add: TWELVE_HOURS_MS_def)
  from ceilDiv_hours [OF a] p show ?thesis
    by (simp add: post_student_update_seq_def)
qed

theorem retake_within_cooldown_rejected_witness:
  "post_student_update_seq exampleParse 1704101400001 exampleDate exampleSheet
       (Some (JStr ''9876543210'')) (Some retakeUpdates)
     = (Response 409 (CooldownBody 7), exampleSheet)"
proof -
  let ?s = "mapRowToStudent (exampleSheet ! 0) 2"
  have n: "normalizeMobileNumber (Some (JStr ''9876543210'')) = ''9876543210''"
    by (simp add: normalizeMobileNumber_def isDigit_def)
  have found: "findStudentByMobile exampleSheet (normalizeMobileNumber (Some (JStr ''9876543210'')))
      = Some ?s"
    by (simp only: n exampleSheet_found)
  have retake: "normalizeYesNo (retakeUpdates ''RetakeAllowed'') = ''Yes''"
    by (simp add: retakeUpdates_def toLowerCase_def lowerChar_def upperChars_def lowerChars_def
        trim_def isSpace_def)
  have parsed: "parseIsoDate exampleParse (?s ''LastApprovedAt'') = Some 1704083400000"
    by (simp add: mapRowToStudent_fields exampleSheet_def cell_def parseIsoDate_def
        exampleParse_def)
  have past: "(0::int) \<le> 1704101400001 - 1704083400000" by simp
  have recent: "(1704101400001::int) - 1704083400000 < TWELVE_HOURS_MS"
    by (simp add: TWELVE_HOURS_MS_def)
  have "ceilDiv (TWELVE_HOURS_MS - (1704101400001 - 1704083400000)) (60 * 60 * 1000) = 7"
    by (simp add: ceilDiv_def TWELVE_HOURS_MS_def)
  with retake_within_cooldown_rejected
    [where rows = exampleSheet and mobileNo = "Some (JStr ''9876543210'')" and s = "?s"
       and updates = retakeUpdates and dateParse = exampleParse and t = 1704083400000
       and now = 1704101400001 and istTime = exampleDate,
     OF found retake parsed past recent]
  show ?thesis by auto
qed

section \<open>C4: a retake after the cooldown window\<close>

text \<open>
  C4. A \<^verbatim>\<open>POST /student/update\<close> call whose \<^verbatim>\<open>RetakeAllowed\<close> normalises to
  \<^verbatim>\<open>Yes\<close>, on a record whose \<^verbatim>\<open>LastApprovedAt\<close> does not parse (it is absent or
  empty, or not a date) or parses to a time at least 12 hours before now, is answered
  200. The returned record and the record a later lookup reads from the same row both
  have \<^verbatim>\<open>RetakeAllowed\<close> equal to \<^verbatim>\<open>Yes\<close> and \<^verbatim>\<open>LastApprovedAt\<close> equal to the
  current timestamp.
\<close>

theorem retake_after_cooldown_accepted:
  assumes found: "findStudentByMobile rows (normalizeMobileNumber mobileNo) = Some s"
    and retake: "normalizeYesNo (updates ''RetakeAllowed'') = ''Yes''"
    and elapsed: "parseIsoDate dateParse (s ''LastApprovedAt'') = None
       \<or> (\<exists>t. parseIsoDate dateParse (s ''LastApprovedAt'') = Some t
                \<and> TWELVE_HOURS_MS \<le> now - t)"
  shows "\<exists>u rows' after.
       post_student_update_seq dateParse now istTime rows mobileNo (Some updates)
         = (Response 200 (StudentBody u), rows')
     \<and> u ''RetakeAllowed'' = Some (JStr ''Yes'')
     \<and> u ''LastApprovedAt'' = Some (JStr (getCurrentISTTimestamp istTime))
     \<and> length rows' = length rows
     \<and> findStudentByMobile rows' (normalizeMobileNumber mobileNo) = Some after
     \<and> rowNumberOf after = rowNumberOf s
     \<and> after ''RetakeAllowed'' = Some (JStr ''Yes'')
     \<and> after ''LastApprovedAt'' = Some (JStr (getCurrentISTTimestamp istTime))"
proof -
  let ?u = "mergeUpdates s
      (normalizeField ''RetakeAllowed''
         (normalizeField ''Attempted'' (normalizeField ''Paid'' updates)))
      (normalizeMobileNumber mobileNo)
      (normalizeYesNo (updates ''RetakeAllowed'') = ''Yes''
         \<or> normalizeYesNo (updates ''Attempted'') = ''Yes''
             \<and> normalizeYesNo (s ''Attempted'') \<noteq> ''Yes'')
      istTime"
  have rej: "retakeRejection dateParse now
      (normalizeYesNo (updates ''RetakeAllowed'') = ''Yes'') s = None"
    using elapsed by (rule retakeRejection_elapsed)
  have r: "?u ''RetakeAllowed'' = Some (JStr ''Yes'')"
    using retake by (rule retake_field)
  have l: "?u ''LastApprovedAt'' = Some (JStr (getCurrentISTTimestamp istTime))"
    using retake by (simp add: mergeUpdates_LastApprovedAt)
  from post_student_update_accepted
    [where updates = updates and istTime = istTime and dateParse = dateParse and now = now,
     OF found rej]
  obtain rows' after where
    "post_student_update_seq dateParse now istTime rows mobileNo (Some updates)
       = (Response 200 (StudentBody ?u), rows')"
    "length rows' = length rows"
    "findStudentByMobile rows' (normalizeMobileNumber mobileNo) = Some after"
    "rowNumberOf after = rowNumberOf s"
    "after ''RetakeAllowed'' = Some (namedCell (?u ''RetakeAllowed''))"
    "after ''LastApprovedAt'' = Some (namedCell (?u ''LastApprovedAt''))"
    by blast
  with r l show ?thesis
    by (simp add: namedCell_JStr trim_getCurrentISTTimestamp)
qed

theorem retake_after_cooldown_accepted_witness:
  "\<exists>u rows' after.
       post_student_update_seq exampleParse 1704130200000 exampleDate exampleSheet
           (Some (JStr ''9876543210'')) (Some retakeUpdates)
         = (Response 200 (StudentBody u), rows')
     \<and> u ''RetakeAllowed'' = Some (JStr ''Yes'')
     \<and> u ''LastApprovedAt'' = Some (JStr ''2024-01-05T09:03:07.042+05:30'')
     \<and> length rows' = length exampleSheet
     \<and> findStudentByMobile rows' ''9876543210'' = Some after
     \<and> rowNumberOf after = 2
     \<and> after ''RetakeAllowed'' = Some (JStr ''Yes'')
     \<and> after ''LastApprovedAt'' = Some (JStr ''2024-01-05T09:03:07.042+05:30'')"
  using retake_after_cooldown_accepted
    [where rows = exampleSheet and mobileNo = "Some (JStr ''9876543210'')"
       and s = "mapRowToStudent (exampleSheet ! 0) 2" and updates = retakeUpdates
       and dateParse = exampleParse and now = 1704130200000 and istTime = exampleDate,
     OF exampleSheet_lookup retakeUpdates_retake exampleSheet_elapsed]
  by (simp only: exampleNumber exampleDate_timestamp rowNumberOf_mapRowToStudent)

section \<open>C2: an update never changes CreatedAt\<close>

text \<open>
  C2 does not hold of the code, which here contradicts its own comments
  (\<^verbatim>\<open>CreatedAt: NEVER overwritten (always preserved from original)\<close>). The row of
  \<open>paddedSheet\<close> holds a \<^verbatim>\<open>CreatedAt\<close> that begins with a space. The update
  \<^verbatim>\<open>{Paid: 'Yes'}\<close> of that record is answered 200, and the \<^verbatim>\<open>CreatedAt\<close> stored
  afterwards has lost the space: \<^verbatim>\<open>buildRowFromStudent\<close> writes every named column
  through \<^verbatim>\<open>String(value).trim()\<close>. The same happens with updates that carry a
  \<^verbatim>\<open>CreatedAt\<close> of their own, which is dropped.
\<close>

theorem update_rewrites_CreatedAt:
  "storedNumber (paddedSheet ! 0) = ''9876543210''
   \<and> cell (paddedSheet ! 0) 11 = '' 2024-01-01T10:00:00.000+05:30''
   \<and> status (fst (post_student_update_seq exampleParse 1704130200000 exampleDate paddedSheet
          (Some (JStr ''9876543210'')) (Some paidUpdates))) = 200
   \<and> cell (snd (post_student_update_seq exampleParse 1704130200000 exampleDate paddedSheet
          (Some (JStr ''9876543210'')) (Some paidUpdates)) ! 0) 11
       = ''2024-01-01T10:00:00.000+05:30''
   \<and> status (fst (post_student_update_seq exampleParse 1704130200000 exampleDate paddedSheet
          (Some (JStr ''9876543210'')) (Some forgedUpdates))) = 200
   \<and> cell (snd (post_student_update_seq exampleParse 1704130200000 exampleDate paddedSheet
          (Some (JStr ''9876543210'')) (Some forgedUpdates)) ! 0) 11
       = ''2024-01-01T10:00:00.000+05:30''"
  by code_simp

section \<open>C5: when LastApprovedAt is refreshed\<close>

text \<open>
  C5 does not hold of the code, which here contradicts its own comment
  (\<^verbatim>\<open>LastApprovedAt: Updated when approved/retake, preserved otherwise\<close>). The record of
  \<open>exampleSheet\<close> has \<^verbatim>\<open>Attempted\<close> \<^verbatim>\<open>Yes\<close>. The update
  \<^verbatim>\<open>{Attempted: true, LastApprovedAt: '2000-01-01T00:00:00.000+05:30'}\<close>, sent one hour
  after the stored \<^verbatim>\<open>LastApprovedAt\<close>, grants no retake and approves no new attempt; it
  is answered 200 and the stored \<^verbatim>\<open>LastApprovedAt\<close> becomes the value of the payload
  instead of keeping its pre-update value. A retake request at that moment is refused
  with 409 on the sheet as it was, and accepted on the sheet the update leaves.
\<close>

theorem update_overwrites_LastApprovedAt:
  "storedNumber (exampleSheet ! 0) = ''9876543210''
   \<and> cell (exampleSheet ! 0) 6 = ''Yes''
   \<and> cell (exampleSheet ! 0) 8 = ''2024-01-01T10:00:00.000+05:30''
   \<and> status (fst (post_student_update_seq backdatedParse 1704087000000 exampleDate exampleSheet
          (Some (JStr ''9876543210'')) (Some backdatedUpdates))) = 200
   \<and> cell (snd (post_student_update_seq backdatedParse 1704087000000 exampleDate exampleSheet
          (Some (JStr ''9876543210'')) (Some backdatedUpdates)) ! 0) 8
       = ''2000-01-01T00:00:00.000+05:30''
   \<and> status (fst (post_student_update_seq backdatedParse 1704087000000 exampleDate exampleSheet
          (Some (JStr ''9876543210'')) (Some retakeUpdates))) = 409
   \<and> status (fst (post_student_update_seq backdatedParse 1704087000000 exampleDate
          (snd (post_student_update_seq backdatedParse 1704087000000 exampleDate exampleSheet
             (Some (JStr ''9876543210'')) (Some backdatedUpdates)))
          (Some (JStr ''9876543210'')) (Some retakeUpdates))) = 200"
  by code_simp

section \<open>C6: creating a record for a fresh number\<close>

text \<open>
  C6, as the code has it. For every \<^verbatim>\<open>POST /student\<close> payload that passes the
  handler's three 400 checks, whose \<^verbatim>\<open>Name\<close>, \<^verbatim>\<open>District\<close> and \<^verbatim>\<open>State\<close> are
  strings, and whose normalised \<^verbatim>\<open>MobileNo\<close> no row of the sheet holds, the response
  is 201 with \<^verbatim>\<open>created: true\<close> and one row is appended after the rows of the sheet.
  The record returned and the row stored have \<^verbatim>\<open>Attempted\<close> \<^verbatim>\<open>Yes\<close>,
  \<^verbatim>\<open>RetakeAllowed\<close> \<^verbatim>\<open>No\<close>, and \<^verbatim>\<open>LastApprovedAt\<close> and \<^verbatim>\<open>CreatedAt\<close> the current
  timestamp (the clock is read once for each, \<open>t1\<close> and \<open>t2\<close>). A lookup by that number
  afterwards answers 200 with the record of the new row, whose \<^verbatim>\<open>CreatedAt\<close> is the
  one returned at creation.
\<close>

theorem post_student_fresh_creates:
  assumes checks: "passesChecks req" and strings: "stringFields req"
    and fresh: "normalizeMobileNumber (MobileNo req) \<notin> set (map storedNumber rows)"
  shows "\<exists>created newRow found.
       post_student_seq t1 t2 rows req
         = (Response 201 (StudentCreated created), rows @ [newRow])
     \<and> created ''MobileNo'' = Some (JStr (normalizeMobileNumber (MobileNo req)))
     \<and> created ''Attempted'' = Some (JStr ''Yes'')
     \<and> created ''RetakeAllowed'' = Some (JStr ''No'')
     \<and> created ''LastApprovedAt'' = Some (JStr (getCurrentISTTimestamp t1))
     \<and> created ''CreatedAt'' = Some (JStr (getCurrentISTTimestamp t2))
     \<and> cell newRow 1 = normalizeMobileNumber (MobileNo req)
     \<and> cell newRow 6 = ''Yes''
     \<and> cell newRow 7 = ''No''
     \<and> cell newRow 8 = getCurrentISTTimestamp t1
     \<and> cell newRow 11 = getCurrentISTTimestamp t2
     \<and> get_student (rows @ [newRow]) (Some (normalizeMobileNumber (MobileNo req)))
         = Response 200 (StudentBody found)
     \<and> found = mapRowToStudent newRow (length rows + 2)
     \<and> found ''Attempted'' = Some (JStr ''Yes'')
     \<and> found ''RetakeAllowed'' = Some (JStr ''No'')
     \<and> found ''CreatedAt'' = created ''CreatedAt''"
proof -
  let ?n = "normalizeMobileNumber (MobileNo req)"
  from checks strings have "passesChecks req \<and> stringFields req" ..
  then obtain name district state where v:
    "Name req = Some (JStr name)" "name \<noteq> []"
    "District req = Some (JStr district)" "district \<noteq> []"
    "State req = Some (JStr state)" "state \<noteq> []"
    "Paid req \<noteq> None" "feeProvided (FeeAmount req)"
    "?n \<noteq> []"
    by (rule acceptedRequestD)
  from fresh have none: "findStudentByMobile rows ?n = None"
    by (rule findStudentByMobile_fresh)
  let ?new = "[trim name, ?n, trim district, trim state, normalizeYesNo (Paid req),
      trim (jsString (the (FeeAmount req))), ''Yes'', ''No'', getCurrentISTTimestamp t1,
      [], [], getCurrentISTTimestamp t2]"
  from post_student_append [OF v none none none none, of t1 t2]
  obtain created where p: "post_student t1 t2 rows rows rows rows req
      = (Response 201 (StudentCreated created),
         AppendRow
          [JStr (trim name), JStr ?n, JStr (trim district),
           JStr (trim state), JStr (normalizeYesNo (Paid req)),
           JStr (trim (jsString (the (FeeAmount req)))), JStr ''Yes'', JStr ''No'',
           JStr (getCurrentISTTimestamp t1), JStr [], JStr [],
           JStr (getCurrentISTTimestamp t2)])"
    and c: "created ''MobileNo'' = Some (JStr ?n)"
      "created ''Attempted'' = Some (JStr ''Yes'')"
      "created ''RetakeAllowed'' = Some (JStr ''No'')"
      "created ''LastApprovedAt'' = Some (JStr (getCurrentISTTimestamp t1))"
      "created ''CreatedAt'' = Some (JStr (getCurrentISTTimestamp t2))"
    by simp
  from p have seq: "post_student_seq t1 t2 rows req
      = (Response 201 (StudentCreated created), rows @ [?new])"
    by (simp add: post_student_seq_def)
  have f: "findStudentByMobile (rows @ [?new]) ?n
      = Some (mapRowToStudent ?new (length rows + 2))"
    using none v(9) by (rule findStudentByMobile_append) (simp_all add: cell_def)
  have g: "get_student (rows @ [?new]) (Some ?n)
      = Response 200 (StudentBody (mapRowToStudent ?new (length rows + 2)))"
    using v(9) by (simp add: get_student_def trim_normalizeMobileNumber f)
  show ?thesis
    using seq c g by (simp add: mapRowToStudent_fields cell_def)
qed

theorem post_student_fresh_creates_witness:
  "\<exists>created newRow found.
       post_student_seq exampleDate exampleDate otherSheet exampleRequest
         = (Response 201 (StudentCreated created), otherSheet @ [newRow])
     \<and> created ''MobileNo'' = Some (JStr ''9876543210'')
     \<and> created ''Attempted'' = Some (JStr ''Yes'')
     \<and> created ''RetakeAllowed'' = Some (JStr ''No'')
     \<and> created ''LastApprovedAt'' = Some (JStr ''2024-01-05T09:03:07.042+05:30'')
     \<and> created ''CreatedAt'' = Some (JStr ''2024-01-05T09:03:07.042+05:30'')
     \<and> cell newRow 1 = ''9876543210''
     \<and> cell newRow 6 = ''Yes''
     \<and> cell newRow 7 = ''No''
     \<and> cell newRow 8 = ''2024-01-05T09:03:07.042+05:30''
     \<and> cell newRow 11 = ''2024-01-05T09:03:07.042+05:30''
     \<and> get_student (otherSheet @ [newRow]) (Some ''9876543210'')
         = Response 200 (StudentBody found)
     \<and> found = mapRowToStudent newRow 3
     \<and> found ''Attempted'' = Some (JStr ''Yes'')
     \<and> found ''RetakeAllowed'' = Some (JStr ''No'')
     \<and> found ''CreatedAt'' = created ''CreatedAt''"
  using post_student_fresh_creates
    [OF exampleRequest_valid [THEN conjunct1] exampleRequest_valid [THEN conjunct2]
        otherSheet_fresh, of exampleDate exampleDate]
  by (simp only: exampleRequest_number exampleDate_timestamp otherSheet_length)

text \<open>
  C6 as stated fails for a payload that passes the handler's checks with a \<^verbatim>\<open>Name\<close>
  that is not a string: \<^verbatim>\<open>Name: 5\<close> with a fresh number is answered 500, because a
  number has no \<^verbatim>\<open>trim\<close> method, and nothing is appended.
\<close>

theorem post_student_numeric_name_counterexample:
  "passesChecks numericNameRequest
   \<and> normalizeMobileNumber (MobileNo numericNameRequest) \<notin> set (map storedNumber otherSheet)
   \<and> status (fst (post_student_seq exampleDate exampleDate otherSheet numericNameRequest)) = 500
   \<and> snd (post_student_seq exampleDate exampleDate otherSheet numericNameRequest) = otherSheet"
  by code_simp

section \<open>C7: normalising a phone number\<close>

text \<open>
  C7. For every string, \<^verbatim>\<open>normalizeMobileNumber\<close> returns the digits of the string in
  their order and nothing else, and normalising its result again returns that result.
  Creating the student of the specification's example, whose \<^verbatim>\<open>MobileNo\<close> is
  \<^verbatim>\<open>98765 43210\<close>, on an empty sheet stores the one row with \<^verbatim>\<open>MobileNo\<close>
  \<^verbatim>\<open>9876543210\<close>.
\<close>

theorem normalizeMobileNumber_keeps_digits:
  "normalizeMobileNumber (Some (JStr s)) = filter isDigit s
   \<and> normalizeMobileNumber (Some (JStr (normalizeMobileNumber (Some (JStr s)))))
       = normalizeMobileNumber (Some (JStr s))
   \<and> normalizeMobileNumber (Some (JStr ''98765 43210'')) = ''9876543210''
   \<and> map (\<lambda>r. cell r 1) (snd (post_student_seq t1 t2 [] exampleRequest)) = [''9876543210'']"
proof -
  have fields: "Name exampleRequest = Some (JStr ''A'')" "''A'' \<noteq> []"
    "District exampleRequest = Some (JStr ''X'')" "''X'' \<noteq> []"
    "State exampleRequest = Some (JStr ''Y'')" "''Y'' \<noteq> []"
    "Paid exampleRequest \<noteq> None" "feeProvided (FeeAmount exampleRequest)"
    "normalizeMobileNumber (MobileNo exampleRequest) \<noteq> []"
    by (simp_all add: exampleRequest_number) (simp_all add: exampleRequest_def feeProvided_def)
  note p = post_student_append [OF fields exampleRequest_fresh exampleRequest_fresh
      exampleRequest_fresh exampleRequest_fresh, of t1 t2]
  have "map (\<lambda>r. cell r 1) (snd (post_student_seq t1 t2 [] exampleRequest))
      = [''9876543210'']"
    by (simp add: post_student_seq_def p exampleRequest_number cell_def)
  moreover have "normalizeMobileNumber (Some (JStr ''98765 43210'')) = ''9876543210''"
    by (simp add: normalizeMobileNumber_def isDigit_def)
  ultimately show ?thesis
    by (simp add: normalizeMobileNumber_JStr)
qed

section \<open>C8: a record that appears between the re-checks\<close>

text \<open>
  C8, as the code has it. For every \<^verbatim>\<open>POST /student\<close> call, when the second, third
  or fourth lookup finds a record for the normalised \<^verbatim>\<open>MobileNo\<close>, no row is appended.
  For a payload that passes the handler's three 400 checks and whose \<^verbatim>\<open>Name\<close>,
  \<^verbatim>\<open>District\<close> and \<^verbatim>\<open>State\<close> are strings, and whose first lookup finds nothing:
  when the second lookup (\<^verbatim>\<open>finalCheck\<close>) or, after it found nothing, the third
  (\<^verbatim>\<open>preAppendCheck\<close>) finds a record, the answer is 200 with \<^verbatim>\<open>updated: true\<close> and
  an update of that record's row; when only the fourth lookup (\<^verbatim>\<open>absoluteFinalCheck\<close>)
  finds a record, nothing is updated: the handler throws and answers 500.
\<close>

theorem recheck_finds_record:
  "((findStudentByMobile rows2 (normalizeMobileNumber (MobileNo req)) \<noteq> None
       \<or> findStudentByMobile rows3 (normalizeMobileNumber (MobileNo req)) \<noteq> None
       \<or> findStudentByMobile rows4 (normalizeMobileNumber (MobileNo req)) \<noteq> None)
      \<longrightarrow> (\<forall>vals. snd (post_student t1 t2 rows1 rows2 rows3 rows4 req) \<noteq> AppendRow vals))
   \<and> (passesChecks req \<and> stringFields req \<longrightarrow>
        (findStudentByMobile rows1 (normalizeMobileNumber (MobileNo req)) = None
          \<and> findStudentByMobile rows2 (normalizeMobileNumber (MobileNo req)) = Some e
          \<longrightarrow> (\<exists>u vals. post_student t1 t2 rows1 rows2 rows3 rows4 req
                  = (Response 200 (StudentUpdated u), UpdateRow (rowNumberOf e) vals)))
       \<and> (findStudentByMobile rows1 (normalizeMobileNumber (MobileNo req)) = None
          \<and> findStudentByMobile rows2 (normalizeMobileNumber (MobileNo req)) = None
          \<and> findStudentByMobile rows3 (normalizeMobileNumber (MobileNo req)) = Some e
          \<longrightarrow> (\<exists>u vals. post_student t1 t2 rows1 rows2 rows3 rows4 req
                  = (Response 200 (StudentUpdated u), UpdateRow (rowNumberOf e) vals)))
       \<and> (findStudentByMobile rows1 (normalizeMobileNumber (MobileNo req)) = None
          \<and> findStudentByMobile rows2 (normalizeMobileNumber (MobileNo req)) = None
          \<and> findStudentByMobile rows3 (normalizeMobileNumber (MobileNo req)) = None
          \<and> findStudentByMobile rows4 (normalizeMobileNumber (MobileNo req)) = Some e
          \<longrightarrow> post_student t1 t2 rows1 rows2 rows3 rows4 req
                = (Response 500 (ErrorBody ''Failed to add student''), NoWrite)))"
proof -
  let ?n = "normalizeMobileNumber (MobileNo req)"
  have never: "\<forall>vals. snd (post_student t1 t2 rows1 rows2 rows3 rows4 req) \<noteq> AppendRow vals"
    if "findStudentByMobile rows2 ?n \<noteq> None \<or> findStudentByMobile rows3 ?n \<noteq> None
       \<or> findStudentByMobile rows4 ?n \<noteq> None"
  proof (intro allI notI)
    fix vals
    assume "snd (post_student t1 t2 rows1 rows2 rows3 rows4 req) = AppendRow vals"
    from post_student_AppendRowD [OF this] that show False by simp
  qed
  have accepted: "(findStudentByMobile rows1 ?n = None \<and> findStudentByMobile rows2 ?n = Some e
          \<longrightarrow> (\<exists>u vals. post_student t1 t2 rows1 rows2 rows3 rows4 req
                  = (Response 200 (StudentUpdated u), UpdateRow (rowNumberOf e) vals)))
       \<and> (findStudentByMobile rows1 ?n = None \<and> findStudentByMobile rows2 ?n = None
          \<and> findStudentByMobile rows3 ?n = Some e
          \<longrightarrow> (\<exists>u vals. post_student t1 t2 rows1 rows2 rows3 rows4 req
                  = (Response 200 (StudentUpdated u), UpdateRow (rowNumberOf e) vals)))
       \<and> (findStudentByMobile rows1 ?n = None \<and> findStudentByMobile rows2 ?n = None
          \<and> findStudentByMobile rows3 ?n = None \<and> findStudentByMobile rows4 ?n = Some e
          \<longrightarrow> post_student t1 t2 rows1 rows2 rows3 rows4 req
                = (Response 500 (ErrorBody ''Failed to add student''), NoWrite))"
    if valid: "passesChecks req \<and> stringFields req"
  proof -
    from valid obtain name district state where v:
      "Name req = Some (JStr name)" "name \<noteq> []"
      "District req = Some (JStr district)" "district \<noteq> []"
      "State req = Some (JStr state)" "state \<noteq> []"
      "Paid req \<noteq> None" "feeProvided (FeeAmount req)"
      "?n \<noteq> []" "truthy (MobileNo req)"
      by (rule acceptedRequestD)
    have guards: "post_student t1 t2 rows1 rows2 rows3 rows4 req =
        (case post_student_try t1 t2 rows1 rows2 rows3 rows4 req of
           Inl e \<Rightarrow> (Response 500 (ErrorBody ''Failed to add student''), NoWrite)
         | Inr r \<Rightarrow> r)"
      using v by (auto simp: post_student_def)
    from updateExisting_ok [OF v(1) v(3) v(5), of ?n "normalizeYesNo (Paid req)" e]
    obtain u vals where upd: "updateExisting req ?n (normalizeYesNo (Paid req)) e
        = Inr (Response 200 (StudentUpdated u), UpdateRow (rowNumberOf e) vals)"
      by blast
    have second: "post_student t1 t2 rows1 rows2 rows3 rows4 req
          = (Response 200 (StudentUpdated u), UpdateRow (rowNumberOf e) vals)"
      if "findStudentByMobile rows1 ?n = None" "findStudentByMobile rows2 ?n = Some e"
      using that v(9) by (simp add: guards post_student_try_def Let_def upd)
    have third: "post_student t1 t2 rows1 rows2 rows3 rows4 req
          = (Response 200 (StudentUpdated u), UpdateRow (rowNumberOf e) vals)"
      if "findStudentByMobile rows1 ?n = None" "findStudentByMobile rows2 ?n = None"
        "findStudentByMobile rows3 ?n = Some e"
      using that v(9) v(1) v(3) v(5) by (simp add: guards post_student_try_def Let_def upd)
    have fourth: "post_student t1 t2 rows1 rows2 rows3 rows4 req
          = (Response 500 (ErrorBody ''Failed to add student''), NoWrite)"
      if "findStudentByMobile rows1 ?n = None" "findStudentByMobile rows2 ?n = None"
        "findStudentByMobile rows3 ?n = None" "findStudentByMobile rows4 ?n = Some e"
      using that v(9) v(1) v(3) v(5) by (simp add: guards post_student_try_def Let_def)
    from second third fourth show ?thesis by blast
  qed
  from never accepted show ?thesis by blast
qed

theorem recheck_finds_record_witness:
  "(\<exists>u vals. post_student exampleDate exampleDate otherSheet twoStudentSheet twoStudentSheet
        twoStudentSheet exampleRequest = (Response 200 (StudentUpdated u), UpdateRow 3 vals))
   \<and> (\<exists>u vals. post_student exampleDate exampleDate otherSheet otherSheet twoStudentSheet
        twoStudentSheet exampleRequest = (Response 200 (StudentUpdated u), UpdateRow 3 vals))
   \<and> post_student exampleDate exampleDate otherSheet otherSheet otherSheet twoStudentSheet
        exampleRequest = (Response 500 (ErrorBody ''Failed to add student''), NoWrite)
   \<and> (\<forall>vals. snd (post_student exampleDate exampleDate otherSheet otherSheet otherSheet
        twoStudentSheet exampleRequest) \<noteq> AppendRow vals)"
proof -
  note r = recheck_finds_record [where req = exampleRequest
        and e = "mapRowToStudent (twoStudentSheet ! 1) 3" and ?t1.0 = exampleDate
        and ?t2.0 = exampleDate and ?rows1.0 = otherSheet and ?rows4.0 = twoStudentSheet]
  from r [where ?rows2.0 = twoStudentSheet and ?rows3.0 = twoStudentSheet]
    r [where ?rows2.0 = otherSheet and ?rows3.0 = twoStudentSheet]
    r [where ?rows2.0 = otherSheet and ?rows3.0 = otherSheet]
    exampleRequest_valid otherSheet_lookup twoStudentSheet_lookup
  show ?thesis by (simp add: rowNumberOf_mapRowToStudent)
qed

text \<open>
  C8 as stated fails for the last re-check: with a record that appears only at the
  fourth lookup, the response is a failure (500) and the sheet is not written. It also
  fails at the second lookup for the payload with \<^verbatim>\<open>Name: 5\<close>, which passes the
  handler's checks: the record is found and the response is 500.
\<close>

theorem final_recheck_counterexample:
  "findStudentByMobile otherSheet (normalizeMobileNumber (MobileNo exampleRequest)) = None
   \<and> findStudentByMobile twoStudentSheet (normalizeMobileNumber (MobileNo exampleRequest))
        \<noteq> None
   \<and> passesChecks exampleRequest \<and> stringFields exampleRequest
   \<and> status (fst (post_student exampleDate exampleDate otherSheet otherSheet otherSheet
        twoStudentSheet exampleRequest)) = 500
   \<and> snd (post_student exampleDate exampleDate otherSheet otherSheet otherSheet twoStudentSheet
        exampleRequest) = NoWrite
   \<and> passesChecks numericNameRequest
   \<and> findStudentByMobile otherSheet (normalizeMobileNumber (MobileNo numericNameRequest))
        = None
   \<and> findStudentByMobile twoStudentSheet (normalizeMobileNumber (MobileNo numericNameRequest))
        \<noteq> None
   \<and> status (fst (post_student exampleDate exampleDate otherSheet twoStudentSheet
        twoStudentSheet twoStudentSheet numericNameRequest)) = 500
   \<and> snd (post_student exampleDate exampleDate otherSheet twoStudentSheet twoStudentSheet
        twoStudentSheet numericNameRequest) = NoWrite"
  by code_simp

section \<open>C9: a lookup input without digits\<close>

text \<open>
  C9 does not hold of \<^verbatim>\<open>GET /student\<close>. The handler refuses only a missing or blank
  \<^verbatim>\<open>mobileNo\<close>; for \<^verbatim>\<open>abc\<close>, whose normalisation is empty, it searches the sheet,
  where no row can match an empty number, and answers 404 \<^verbatim>\<open>Student not found.\<close> on
  every sheet. The sibling handler \<^verbatim>\<open>POST /student/update\<close> answers 400
  \<^verbatim>\<open>Invalid mobile number.\<close> for the same number.
\<close>

theorem get_student_without_digits_not_found:
  "normalizeMobileNumber (Some (JStr ''abc'')) = []
   \<and> get_student rows (Some ''abc'') = Response 404 NotFoundBody
   \<and> post_student_update dateParse now istTime rows (Some (JStr ''abc'')) (Some updates)
       = (Response 400 (ErrorBody ''Invalid mobile number.''), NoWrite)"
proof -
  have d: "filter isDigit ''abc'' = []" by (simp add: isDigit_def)
  have t: "trim ''abc'' = ''abc''" by (simp add: trim_def isSpace_def)
  have n: "normalizeMobileNumber (Some (JStr ''abc'')) = []"
    by (simp only: normalizeMobileNumber_JStr d)
  have g: "get_student rows (Some ''abc'') = Response 404 NotFoundBody"
    by (simp add: get_student_def t findStudentByMobile_no_digits [OF d])
  have u: "post_student_update dateParse now istTime rows (Some (JStr ''abc'')) (Some updates)
       = (Response 400 (ErrorBody ''Invalid mobile number.''), NoWrite)"
    by (simp add: post_student_update_def post_student_update_try_def n)
  from n g u show ?thesis by simp
qed

theorem get_student_without_digits_not_found_witness:
  "get_student exampleSheet (Some ''abc'') = Response 404 NotFoundBody
   \<and> post_student_update exampleParse 0 exampleDate exampleSheet (Some (JStr ''abc''))
         (Some retakeUpdates)
       = (Response 400 (ErrorBody ''Invalid mobile number.''), NoWrite)"
  using get_student_without_digits_not_found
    [where rows = exampleSheet and dateParse = exampleParse and now = 0
       and istTime = exampleDate and updates = retakeUpdates]
  by (elim conjE) (intro conjI)

section \<open>C10: Yes/No normalisation\<close>

text \<open>
  C10, as the code has it. For every value, \<^verbatim>\<open>normalizeYesNo\<close> returns \<^verbatim>\<open>Yes\<close> or
  \<^verbatim>\<open>No\<close>, and \<^verbatim>\<open>Yes\<close> exactly for the boolean true and for a string whose trimmed
  lower-case form is \<^verbatim>\<open>yes\<close>; the strings \<^verbatim>\<open>true\<close>, \<^verbatim>\<open>TRUE\<close> and \<^verbatim>\<open>1\<close>, every
  number, object, null and undefined give \<^verbatim>\<open>No\<close>. In the rows written: a created row
  has \<^verbatim>\<open>Paid\<close> normalised, \<^verbatim>\<open>Attempted\<close> \<^verbatim>\<open>Yes\<close> and \<^verbatim>\<open>RetakeAllowed\<close> \<^verbatim>\<open>No\<close>;
  an upsert of an existing row writes \<^verbatim>\<open>Paid\<close> normalised and carries
  \<^verbatim>\<open>Attempted\<close> and \<^verbatim>\<open>RetakeAllowed\<close> over from the row, trimmed; an accepted update
  writes each of the three fields normalised when the updates carry it, and carries it
  over from the row, trimmed, when they do not.
\<close>

theorem yes_no_fields:
  "(normalizeYesNo v = ''Yes'' \<or> normalizeYesNo v = ''No'')
   \<and> (normalizeYesNo v = ''Yes''
        \<longleftrightarrow> v = Some (JBool True)
            \<or> (\<exists>x. v = Some (JStr x) \<and> toLowerCase (trim x) = ''yes''))
   \<and> normalizeYesNo (Some (JStr ''true'')) = ''No''
   \<and> normalizeYesNo (Some (JStr ''TRUE'')) = ''No''
   \<and> normalizeYesNo (Some (JStr ''1'')) = ''No''
   \<and> normalizeYesNo (Some (JNum n)) = ''No''
   \<and> normalizeYesNo (Some (JObj r)) = ''No''
   \<and> normalizeYesNo (Some JNull) = ''No''
   \<and> normalizeYesNo None = ''No''
   \<and> ((passesChecks req \<and> stringFields req)
        \<and> findStudentByMobile rows (normalizeMobileNumber (MobileNo req)) = None
       \<longrightarrow> (\<exists>newRow. snd (post_student_seq t1 t2 rows req) = rows @ [newRow]
              \<and> cell newRow 4 = normalizeYesNo (Paid req)
              \<and> cell newRow 6 = ''Yes'' \<and> cell newRow 7 = ''No''))
   \<and> ((passesChecks req \<and> stringFields req)
        \<and> findStudentByMobile rows (normalizeMobileNumber (MobileNo req)) = Some existing
       \<longrightarrow> (\<exists>after a b.
               findStudentByMobile (snd (post_student_seq t1 t2 rows req))
                 (normalizeMobileNumber (MobileNo req)) = Some after
             \<and> after ''Paid'' = Some (JStr (normalizeYesNo (Paid req)))
             \<and> existing ''Attempted'' = Some (JStr a)
             \<and> after ''Attempted'' = Some (JStr (trim a))
             \<and> existing ''RetakeAllowed'' = Some (JStr b)
             \<and> after ''RetakeAllowed'' = Some (JStr (trim b))))
   \<and> (findStudentByMobile sheet (normalizeMobileNumber mobileNo) = Some s
        \<and> status (fst (post_student_update dateParse now istTime sheet mobileNo
                     (Some updates))) = 200
       \<longrightarrow> (\<exists>after.
               findStudentByMobile
                 (snd (post_student_update_seq dateParse now istTime sheet mobileNo
                    (Some updates)))
                 (normalizeMobileNumber mobileNo) = Some after
             \<and> (\<forall>k\<in>{''Paid'', ''Attempted'', ''RetakeAllowed''}.
                   case updates k of
                     Some x \<Rightarrow> after k = Some (JStr (normalizeYesNo (Some x)))
                   | None \<Rightarrow> (\<exists>old. s k = Some (JStr old)
                                 \<and> after k = Some (JStr (trim old))))))"
proof -
  note a = normalizeYesNo_cases [of v] normalizeYesNo_Yes_iff [of v] normalizeYesNo_examples
  have b: "normalizeYesNo (Some (JNum n)) = ''No''" "normalizeYesNo (Some (JObj r)) = ''No''"
    "normalizeYesNo (Some JNull) = ''No''" "normalizeYesNo None = ''No''"
    by simp_all
  note c = created_yes_no [of req rows t1 t2] upserted_yes_no [of req rows existing t1 t2]
    updated_yes_no [of sheet mobileNo s dateParse now istTime updates]
  from a b c show ?thesis by blast
qed

theorem yes_no_fields_witness:
  "(\<exists>newRow. snd (post_student_seq exampleDate exampleDate [] exampleRequest) = [] @ [newRow]
        \<and> cell newRow 4 = ''Yes'' \<and> cell newRow 6 = ''Yes'' \<and> cell newRow 7 = ''No'')
   \<and> (\<exists>after. findStudentByMobile
                 (snd (post_student_seq exampleDate exampleDate exampleSheet exampleRequest))
                 ''9876543210'' = Some after
        \<and> after ''Paid'' = Some (JStr ''Yes''))
   \<and> (\<exists>after. findStudentByMobile
                 (snd (post_student_update_seq exampleParse 1704130200000 exampleDate
                    exampleSheet (Some (JStr ''9876543210'')) (Some paidUpdates)))
                 ''9876543210'' = Some after
        \<and> after ''Paid'' = Some (JStr ''Yes''))"
proof -
  have f: "findStudentByMobile exampleSheet (normalizeMobileNumber (MobileNo exampleRequest))
       = Some (mapRowToStudent (exampleSheet ! 0) 2)"
    by (simp only: exampleRequest_number exampleSheet_found)
  have py: "normalizeYesNo (Paid exampleRequest) = ''Yes''"
    unfolding exampleRequest_def by code_simp
  have pu: "paidUpdates ''Paid'' = Some (JStr ''Yes'')" by (simp add: paidUpdates_def)
  have yy: "normalizeYesNo (Some (JStr ''Yes'')) = ''Yes''" by code_simp
  note t = yes_no_fields [where req = exampleRequest and ?t1.0 = exampleDate
      and ?t2.0 = exampleDate and sheet = exampleSheet
      and mobileNo = "Some (JStr ''9876543210'')" and s = "mapRowToStudent (exampleSheet ! 0) 2"
      and dateParse = exampleParse and now = 1704130200000 and istTime = exampleDate
      and updates = paidUpdates and existing = "mapRowToStudent (exampleSheet ! 0) 2"]
  note create = t [where rows = "[]", THEN conjunct2, THEN conjunct2, THEN conjunct2, THEN conjunct2, THEN conjunct2,
      THEN conjunct2, THEN conjunct2, THEN conjunct2, THEN conjunct2,
      THEN conjunct1, THEN mp, OF conjI [OF exampleRequest_valid exampleRequest_fresh]]
  note upsert = t [where rows = exampleSheet, THEN conjunct2, THEN conjunct2, THEN conjunct2, THEN conjunct2, THEN conjunct2,
      THEN conjunct2, THEN conjunct2, THEN conjunct2, THEN conjunct2,
      THEN conjunct2, THEN conjunct1, THEN mp, OF conjI [OF exampleRequest_valid f]]
  note update = t [where rows = exampleSheet, THEN conjunct2, THEN conjunct2, THEN conjunct2, THEN conjunct2, THEN conjunct2,
      THEN conjunct2, THEN conjunct2, THEN conjunct2, THEN conjunct2,
      THEN conjunct2, THEN conjunct2, THEN mp,
      OF conjI [OF exampleSheet_lookup paid_accepted_status]]
  from create
  have 1: "\<exists>newRow. snd (post_student_seq exampleDate exampleDate [] exampleRequest) = [] @ [newRow]
        \<and> cell newRow 4 = ''Yes'' \<and> cell newRow 6 = ''Yes'' \<and> cell newRow 7 = ''No''"
    by (simp only: py)
  from upsert obtain after where
    "findStudentByMobile
       (snd (post_student_seq exampleDate exampleDate exampleSheet exampleRequest))
       (normalizeMobileNumber (MobileNo exampleRequest)) = Some after"
    "after ''Paid'' = Some (JStr (normalizeYesNo (Paid exampleRequest)))"
    by (elim exE conjE)
  then have "findStudentByMobile
       (snd (post_student_seq exampleDate exampleDate exampleSheet exampleRequest))
       ''9876543210'' = Some after"
    "after ''Paid'' = Some (JStr ''Yes'')"
    by (simp_all only: py exampleRequest_number)
  then have 2: "\<exists>after. findStudentByMobile
                 (snd (post_student_seq exampleDate exampleDate exampleSheet exampleRequest))
                 ''9876543210'' = Some after
        \<and> after ''Paid'' = Some (JStr ''Yes'')"
    by blast
  from update obtain after' where u1:
    "findStudentByMobile
       (snd (post_student_update_seq exampleParse 1704130200000 exampleDate
          exampleSheet (Some (JStr ''9876543210'')) (Some paidUpdates)))
       (normalizeMobileNumber (Some (JStr ''9876543210''))) = Some after'"
    and u2: "\<forall>k\<in>{''Paid'', ''Attempted'', ''RetakeAllowed''}.
           case paidUpdates k of
             Some x \<Rightarrow> after' k = Some (JStr (normalizeYesNo (Some x)))
           | None \<Rightarrow> (\<exists>old. mapRowToStudent (exampleSheet ! 0) 2 k = Some (JStr old)
                         \<and> after' k = Some (JStr (trim old)))"
    by (elim exE conjE)
  have "''Paid'' \<in> {''Paid'', ''Attempted'', ''RetakeAllowed''}" by (rule insertI1)
  from bspec [OF u2 this] have "after' ''Paid'' = Some (JStr ''Yes'')"
    by (simp only: pu option.case yy)
  moreover from u1 have "findStudentByMobile
       (snd (post_student_update_seq exampleParse 1704130200000 exampleDate
          exampleSheet (Some (JStr ''9876543210'')) (Some paidUpdates)))
       ''9876543210'' = Some after'"
    by (simp only: exampleNumber)
  ultimately have 3: "\<exists>after. findStudentByMobile
                 (snd (post_student_update_seq exampleParse 1704130200000 exampleDate
                    exampleSheet (Some (JStr ''9876543210'')) (Some paidUpdates)))
                 ''9876543210'' = Some after
        \<and> after ''Paid'' = Some (JStr ''Yes'')"
    by blast
  from 1 2 3 show ?thesis by (intro conjI)
qed

text \<open>
  The last sentence of C10 as stated fails on a row whose \<^verbatim>\<open>Attempted\<close> cell is empty:
  the accepted update \<^verbatim>\<open>{Paid: 'Yes'}\<close> writes \<^verbatim>\<open>Paid\<close> as \<^verbatim>\<open>Yes\<close> and writes the
  empty \<^verbatim>\<open>Attempted\<close> back, which is neither \<^verbatim>\<open>Yes\<close> nor \<^verbatim>\<open>No\<close>.
\<close>

theorem carried_over_field_counterexample:
  "status (fst (post_student_update exampleParse 1704130200000 exampleDate blankSheet
      (Some (JStr ''9876543210'')) (Some paidUpdates))) = 200
   \<and> cell (snd (post_student_update_seq exampleParse 1704130200000 exampleDate blankSheet
          (Some (JStr ''9876543210'')) (Some paidUpdates)) ! 0) 4 = ''Yes''
   \<and> cell (snd (post_student_update_seq exampleParse 1704130200000 exampleDate blankSheet
          (Some (JStr ''9876543210'')) (Some paidUpdates)) ! 0) 6 = []
   \<and> cell (snd (post_student_update_seq exampleParse 1704130200000 exampleDate blankSheet
          (Some (JStr ''9876543210'')) (Some paidUpdates)) ! 0) 6 \<noteq> ''Yes''
   \<and> cell (snd (post_student_update_seq exampleParse 1704130200000 exampleDate blankSheet
          (Some (JStr ''9876543210'')) (Some paidUpdates)) ! 0) 6 \<noteq> ''No''"
  by code_simp

end
